theory Spec2Isabelle
  imports Main "HOL-Library.Sublist"
begin

section \<open>Data model\<close>

type_synonym uuid = string
type_synonym path = string
type_synonym timestamp = nat

text \<open>
  What an operation of the document module can throw: an error object handed back by
  the backend (carrying its code), the \<^verbatim>\<open>new Error('Document not found')\<close> of
  \<^verbatim>\<open>updateDocument\<close> and \<^verbatim>\<open>deleteDocument\<close>, and the \<^verbatim>\<open>TypeError\<close> that JavaScript raises
  when a property of \<^verbatim>\<open>null\<close> is read or destructured.
\<close>

datatype failure = Backend string | DocumentNotFound | TypeError

text \<open>
  A row of the table \<^verbatim>\<open>markdown_documents\<close>. The object passed to \<^verbatim>\<open>insert\<close> carries the
  first six columns; \<^verbatim>\<open>created_at\<close> and \<^verbatim>\<open>updated_at\<close> are filled by the database
  (\<^verbatim>\<open>DEFAULT now()\<close>). The column \<^verbatim>\<open>id\<close> is named \<open>id_col\<close> here.
\<close>

record row_insert =
  id_col :: uuid
  "alias" :: "string option"
  file_name :: string
  user_id :: uuid
  is_public :: bool
  storage_path :: path

record row = row_insert +
  created_at :: timestamp
  updated_at :: timestamp

text \<open>
  The type \<^verbatim>\<open>MarkdownFile\<close>; \<^verbatim>\<open>createDocument\<close> takes it without \<^verbatim>\<open>id\<close>, \<^verbatim>\<open>createdAt\<close>
  and \<^verbatim>\<open>updatedAt\<close>. The field \<^verbatim>\<open>id\<close> is named \<open>id_fld\<close> here.
\<close>

record document_input =
  title :: "string option"
  fileName :: string
  content :: string
  userId :: uuid
  isPublic :: bool

record MarkdownFile = document_input +
  id_fld :: uuid
  createdAt :: timestamp
  updatedAt :: timestamp

text \<open>
  The \<^verbatim>\<open>Partial<...>\<close> argument of \<^verbatim>\<open>updateDocument\<close>: \<open>None\<close> is \<^verbatim>\<open>undefined\<close> (the key is
  missing); a title can also be given as \<^verbatim>\<open>null\<close>, which is \<open>Some None\<close>.
\<close>

record document_updates =
  title_upd :: "string option option"
  fileName_upd :: "string option"
  content_upd :: "string option"
  userId_upd :: "uuid option"
  isPublic_upd :: "bool option"

text \<open>The object \<^verbatim>\<open>dbUpdates\<close> sent to the table by \<^verbatim>\<open>updateDocument\<close>: these keys and no other.\<close>

record db_updates =
  upd_alias :: "string option option"
  upd_is_public :: "bool option"
  upd_updated_at :: "timestamp option"

text \<open>The \<^verbatim>\<open>{ data, error }\<close> object every call of the backend client resolves to.\<close>

record 'a response =
  data :: "'a option"
  error :: "failure option"

section \<open>The backend\<close>

text \<open>
  The calls the document module makes through the backend client (\<^verbatim>\<open>./supabase\<close>), each
  with the arguments it is given.
\<close>

datatype call =
    RpcGenerateUuid
  | SelectAllNewestFirst
  | SelectSingle uuid
  | Insert row_insert
  | Update uuid db_updates
  | Delete uuid
  | StorageUpload path string
  | StorageUpdate path string
  | StorageRemove path
  | StorageDownload path

text \<open>
  Modelled from the spec: the backend itself (the hosted database and object storage
  behind the client \<^verbatim>\<open>./supabase\<close>) is a service outside the source files. It is modelled
  as the table \<open>rows\<close>, the bucket \<open>blobs\<close> keyed by storage path, the ids that
  \<^verbatim>\<open>generate_uuid\<close> will hand out, and a clock for \<^verbatim>\<open>now()\<close>. Reads return what was last
  written. Any call can fail: \<open>faults\<close> holds, for the calls to come, the error each one
  is answered with (\<open>None\<close>, or nothing left: the call is carried out). A call that
  fails changes neither table nor bucket. \<open>trace\<close> records every call received, in
  order, with the error it was answered with.
\<close>

record backend =
  rows :: "row list"
  blobs :: "(path \<times> string) list"
  uuids :: "uuid list"
  clock :: timestamp
  faults :: "failure option list"
  trace :: "(call \<times> failure option) list"

definition next_fault :: "backend \<Rightarrow> failure option" where
  "next_fault s = (case faults s of [] \<Rightarrow> None | f # fs \<Rightarrow> f)"

definition take_fault :: "backend \<Rightarrow> failure option \<times> backend" where
  "take_fault s = (next_fault s, s\<lparr>faults := tl (faults s)\<rparr>)"

definition finish :: "call \<Rightarrow> failure option \<Rightarrow> backend \<Rightarrow> backend" where
  "finish c e s = s\<lparr>clock := Suc (clock s), trace := trace s @ [(c, e)]\<rparr>"

definition failed :: "call \<Rightarrow> failure \<Rightarrow> backend \<Rightarrow> 'a response \<times> backend" where
  "failed c e s = (\<lparr>data = None, error = Some e\<rparr>, finish c (Some e) s)"

definition ok :: "call \<Rightarrow> 'a \<Rightarrow> backend \<Rightarrow> 'a response \<times> backend" where
  "ok c v s = (\<lparr>data = Some v, error = None\<rparr>, finish c None s)"

text \<open>\<^verbatim>\<open>supabase.rpc('generate_uuid')\<close>: the SQL function returns \<^verbatim>\<open>{id: gen_random_uuid()}\<close>.\<close>

definition rpc_generate_uuid :: "backend \<Rightarrow> uuid response \<times> backend" where
  "rpc_generate_uuid s =
     (case take_fault s of
        (Some e, s1) \<Rightarrow> failed RpcGenerateUuid e s1
      | (None, s1) \<Rightarrow>
          (case uuids s1 of
             [] \<Rightarrow> failed RpcGenerateUuid (Backend ''generate_uuid'') s1
           | u # us \<Rightarrow> ok RpcGenerateUuid u (s1\<lparr>uuids := us\<rparr>)))"

text \<open>\<^verbatim>\<open>.select('*').order('created_at', { ascending: false })\<close>\<close>

definition db_select_all :: "backend \<Rightarrow> row list response \<times> backend" where
  "db_select_all s =
     (case take_fault s of
        (Some e, s1) \<Rightarrow> failed SelectAllNewestFirst e s1
      | (None, s1) \<Rightarrow> ok SelectAllNewestFirst (rev (sort_key created_at (rows s1))) s1)"

text \<open>
  \<^verbatim>\<open>.select(...).eq('id', i).single()\<close>: \<^verbatim>\<open>single()\<close> answers with an error and no data
  unless exactly one row matches.
\<close>

definition db_select_single :: "uuid \<Rightarrow> backend \<Rightarrow> row response \<times> backend" where
  "db_select_single i s =
     (case take_fault s of
        (Some e, s1) \<Rightarrow> failed (SelectSingle i) e s1
      | (None, s1) \<Rightarrow>
          (case filter (\<lambda>r. id_col r = i) (rows s1) of
             [r] \<Rightarrow> ok (SelectSingle i) r s1
           | _ \<Rightarrow> failed (SelectSingle i) (Backend ''PGRST116'') s1))"

text \<open>
  \<^verbatim>\<open>.insert({...}).select().single()\<close>: \<^verbatim>\<open>id\<close> is the primary key, so a second row with
  the same id is refused; the timestamps default to \<^verbatim>\<open>now()\<close>.
\<close>

definition stamped :: "row_insert \<Rightarrow> timestamp \<Rightarrow> row" where
  "stamped p now =
     \<lparr>id_col = id_col p, alias = alias p, file_name = file_name p, user_id = user_id p,
      is_public = is_public p, storage_path = storage_path p,
      created_at = now, updated_at = now\<rparr>"

definition db_insert :: "row_insert \<Rightarrow> backend \<Rightarrow> row response \<times> backend" where
  "db_insert p s =
     (case take_fault s of
        (Some e, s1) \<Rightarrow> failed (Insert p) e s1
      | (None, s1) \<Rightarrow>
          if id_col p \<in> set (map id_col (rows s1)) then failed (Insert p) (Backend ''23505'') s1
          else
            (let r = stamped p (clock s1)
             in ok (Insert p) r (s1\<lparr>rows := rows s1 @ [r]\<rparr>)))"

text \<open>
  The effect of an \<^verbatim>\<open>UPDATE\<close> with the object \<open>u\<close> on one row at time \<open>now\<close>: the keys
  present in \<open>u\<close> are written, and the trigger \<^verbatim>\<open>update_markdown_documents_updated_at\<close>
  of the first migration sets \<^verbatim>\<open>updated_at = now()\<close> whatever the object says.
\<close>

definition apply_updates :: "db_updates \<Rightarrow> timestamp \<Rightarrow> row \<Rightarrow> row" where
  "apply_updates u now r =
     r\<lparr>alias := (case upd_alias u of None \<Rightarrow> alias r | Some a \<Rightarrow> a),
       is_public := (case upd_is_public u of None \<Rightarrow> is_public r | Some b \<Rightarrow> b),
       updated_at := now\<rparr>"

text \<open>\<^verbatim>\<open>.update(u).eq('id', i).select().single()\<close>\<close>

definition db_update :: "uuid \<Rightarrow> db_updates \<Rightarrow> backend \<Rightarrow> row response \<times> backend" where
  "db_update i u s =
     (case take_fault s of
        (Some e, s1) \<Rightarrow> failed (Update i u) e s1
      | (None, s1) \<Rightarrow>
          (case filter (\<lambda>r. id_col r = i) (rows s1) of
             [r] \<Rightarrow>
               ok (Update i u) (apply_updates u (clock s1) r)
                 (s1\<lparr>rows := map (\<lambda>r. if id_col r = i then apply_updates u (clock s1) r else r)
                                (rows s1)\<rparr>)
           | _ \<Rightarrow> failed (Update i u) (Backend ''PGRST116'') s1))"

text \<open>\<^verbatim>\<open>.delete().eq('id', i)\<close>\<close>

definition db_delete :: "uuid \<Rightarrow> backend \<Rightarrow> unit response \<times> backend" where
  "db_delete i s =
     (case take_fault s of
        (Some e, s1) \<Rightarrow> failed (Delete i) e s1
      | (None, s1) \<Rightarrow> ok (Delete i) () (s1\<lparr>rows := filter (\<lambda>r. id_col r \<noteq> i) (rows s1)\<rparr>))"

text \<open>\<^verbatim>\<open>storage.from(BUCKET_NAME).upload(p, c)\<close>: refused when the path is taken.\<close>

definition storage_upload :: "path \<Rightarrow> string \<Rightarrow> backend \<Rightarrow> unit response \<times> backend" where
  "storage_upload p c s =
     (case take_fault s of
        (Some e, s1) \<Rightarrow> failed (StorageUpload p c) e s1
      | (None, s1) \<Rightarrow>
          if p \<in> set (map fst (blobs s1)) then failed (StorageUpload p c) (Backend ''Duplicate'') s1
          else ok (StorageUpload p c) () (s1\<lparr>blobs := blobs s1 @ [(p, c)]\<rparr>))"

text \<open>The bucket with the blob at \<open>p\<close> replaced by \<open>c\<close>.\<close>

definition overwrite :: "path \<Rightarrow> string \<Rightarrow> (path \<times> string) list \<Rightarrow> (path \<times> string) list" where
  "overwrite p c bs = map (\<lambda>(q, d). if q = p then (q, c) else (q, d)) bs"

text \<open>\<^verbatim>\<open>storage.from(BUCKET_NAME).update(p, c)\<close>: replaces the blob at an existing path.\<close>

definition storage_update :: "path \<Rightarrow> string \<Rightarrow> backend \<Rightarrow> unit response \<times> backend" where
  "storage_update p c s =
     (case take_fault s of
        (Some e, s1) \<Rightarrow> failed (StorageUpdate p c) e s1
      | (None, s1) \<Rightarrow>
          if p \<in> set (map fst (blobs s1))
          then ok (StorageUpdate p c) ()
                 (s1\<lparr>blobs := overwrite p c (blobs s1)\<rparr>)
          else failed (StorageUpdate p c) (Backend ''NotFound'') s1)"

text \<open>\<^verbatim>\<open>storage.from(BUCKET_NAME).remove([p])\<close>\<close>

definition storage_remove :: "path \<Rightarrow> backend \<Rightarrow> unit response \<times> backend" where
  "storage_remove p s =
     (case take_fault s of
        (Some e, s1) \<Rightarrow> failed (StorageRemove p) e s1
      | (None, s1) \<Rightarrow>
          ok (StorageRemove p) () (s1\<lparr>blobs := filter (\<lambda>(q, d). q \<noteq> p) (blobs s1)\<rparr>))"

text \<open>\<^verbatim>\<open>storage.from(BUCKET_NAME).download(p)\<close>; the data stands for the blob's text.\<close>

definition storage_download :: "path \<Rightarrow> backend \<Rightarrow> string response \<times> backend" where
  "storage_download p s =
     (case take_fault s of
        (Some e, s1) \<Rightarrow> failed (StorageDownload p) e s1
      | (None, s1) \<Rightarrow>
          (case map_of (blobs s1) p of
             None \<Rightarrow> failed (StorageDownload p) (Backend ''NotFound'') s1
           | Some c \<Rightarrow> ok (StorageDownload p) c s1))"

section \<open>The document module (documents.ts)\<close>

text \<open>JavaScript's \<^verbatim>\<open>a || b\<close> on a string that may be \<^verbatim>\<open>null\<close>: \<^verbatim>\<open>null\<close> and \<^verbatim>\<open>''\<close> are falsy.\<close>

definition or_else :: "string option \<Rightarrow> string \<Rightarrow> string" where
  "or_else a b = (case a of None \<Rightarrow> b | Some x \<Rightarrow> if x = [] then b else x)"

definition or_null :: "string option \<Rightarrow> string option" where
  "or_null a = (case a of None \<Rightarrow> None | Some x \<Rightarrow> if x = [] then None else Some x)"

text \<open>
  The object literal that every operation of documents.ts returns, built from a row
  \<^verbatim>\<open>doc\<close> and a content.
\<close>

definition as_file :: "row \<Rightarrow> string \<Rightarrow> MarkdownFile" where
  "as_file doc c =
     \<lparr>title = Some (or_else (alias doc) (file_name doc)),
      fileName = file_name doc,
      content = c,
      userId = user_id doc,
      isPublic = is_public doc,
      id_fld = id_col doc,
      createdAt = created_at doc,
      updatedAt = updated_at doc\<rparr>"

definition getFileContent :: "path \<Rightarrow> backend \<Rightarrow> (failure + string) \<times> backend" where
  "getFileContent p s =
     (let (r, s1) = storage_download p s in
      case error r of
        Some e \<Rightarrow> (Inl e, s1)
      | None \<Rightarrow> (case data r of None \<Rightarrow> (Inl TypeError, s1) | Some d \<Rightarrow> (Inr d, s1)))"

text \<open>
  \<^verbatim>\<open>documents.map(async doc => ...)\<close>: every download is requested, in the order of the
  rows, whether or not an earlier one fails; each callback gives a file or rejects.
\<close>

fun load_each :: "row list \<Rightarrow> backend \<Rightarrow> (failure + MarkdownFile) list \<times> backend" where
  "load_each [] s = ([], s)"
| "load_each (doc # ds) s =
     (let (c, s1) = getFileContent (storage_path doc) s;
          (rs, s2) = load_each ds s1
      in ((case c of Inl e \<Rightarrow> Inl e | Inr x \<Rightarrow> Inr (as_file doc x)) # rs, s2))"

text \<open>
  \<^verbatim>\<open>Promise.all\<close>: the list of all results, or the rejection of a callback that failed
  (taken here to be the first in the order of the rows).
\<close>

fun promise_all :: "(failure + 'a) list \<Rightarrow> failure + 'a list" where
  "promise_all [] = Inr []"
| "promise_all (Inl e # rs) = Inl e"
| "promise_all (Inr x # rs) = (case promise_all rs of Inl e \<Rightarrow> Inl e | Inr xs \<Rightarrow> Inr (x # xs))"

definition getDocuments :: "backend \<Rightarrow> (failure + MarkdownFile list) \<times> backend" where
  "getDocuments s =
     (let (r, s1) = db_select_all s in
      case error r of
        Some e \<Rightarrow> (Inl e, s1)
      | None \<Rightarrow>
          (case data r of
             None \<Rightarrow> (Inl TypeError, s1)
           | Some documents \<Rightarrow>
               (let (docs, s2) = load_each documents s1 in (promise_all docs, s2))))"

definition getDocument :: "uuid \<Rightarrow> backend \<Rightarrow> (failure + MarkdownFile option) \<times> backend" where
  "getDocument i s =
     (let (r, s1) = db_select_single i s in
      case error r of
        Some e \<Rightarrow> (Inl e, s1)
      | None \<Rightarrow>
          (case data r of
             None \<Rightarrow> (Inr None, s1)
           | Some doc \<Rightarrow>
               (let (c, s2) = getFileContent (storage_path doc) s1 in
                case c of
                  Inl e \<Rightarrow> (Inl e, s2)
                | Inr x \<Rightarrow> (Inr (Some (as_file doc x)), s2))))"

text \<open>
  \<^verbatim>\<open>const { data: { id: docId }, error: idError } = await supabase.rpc(...)\<close> destructures
  \<^verbatim>\<open>data\<close> before \<^verbatim>\<open>idError\<close> is looked at, so a \<^verbatim>\<open>null\<close> data is a \<^verbatim>\<open>TypeError\<close>. The result
  of the clean-up \<^verbatim>\<open>delete\<close> is not looked at.
\<close>

definition createDocument :: "document_input \<Rightarrow> backend \<Rightarrow> (failure + MarkdownFile) \<times> backend" where
  "createDocument document s =
     (let (r0, s1) = rpc_generate_uuid s in
      case data r0 of
        None \<Rightarrow> (Inl TypeError, s1)
      | Some docId \<Rightarrow>
          (case error r0 of
             Some idError \<Rightarrow> (Inl idError, s1)
           | None \<Rightarrow>
               (let fileName = docId @ ''.md'';
                    storagePath = userId document @ ''/'' @ fileName;
                    (r1, s2) = db_insert
                       \<lparr>id_col = docId, alias = or_null (title document),
                        file_name = fileName, user_id = userId document,
                        is_public = isPublic document, storage_path = storagePath\<rparr> s1
                in case error r1 of
                     Some dbError \<Rightarrow> (Inl dbError, s2)
                   | None \<Rightarrow>
                       (let (r2, s3) = storage_upload storagePath (content document) s2 in
                        case error r2 of
                          Some uploadError \<Rightarrow>
                            (let (r3, s4) = db_delete docId s3 in (Inl uploadError, s4))
                        | None \<Rightarrow>
                            (case data r1 of
                               None \<Rightarrow> (Inl TypeError, s3)
                             | Some doc \<Rightarrow> (Inr (as_file doc (content document)), s3))))))"

text \<open>
  The first query asks for \<^verbatim>\<open>storage_path\<close> only, and only that column of \<^verbatim>\<open>currentDoc\<close> is
  used; its error is not looked at. \<^verbatim>\<open>if (updates.title)\<close> skips \<^verbatim>\<open>undefined\<close>, \<^verbatim>\<open>null\<close>
  and \<^verbatim>\<open>''\<close>; \<^verbatim>\<open>updates.content || await getFileContent(...)\<close> downloads when the content
  is missing or empty.
\<close>

definition updateDocument ::
  "uuid \<Rightarrow> document_updates \<Rightarrow> backend \<Rightarrow> (failure + MarkdownFile) \<times> backend" where
  "updateDocument i updates s =
     (let (r0, s1) = db_select_single i s in
      case data r0 of
        None \<Rightarrow> (Inl DocumentNotFound, s1)
      | Some currentDoc \<Rightarrow>
          (let (uploadError, s2) =
                 (case content_upd updates of
                    None \<Rightarrow> (None, s1)
                  | Some c \<Rightarrow>
                      (let (r1, s') = storage_update (storage_path currentDoc) c s1
                       in (error r1, s'))) in
           case uploadError of
             Some e \<Rightarrow> (Inl e, s2)
           | None \<Rightarrow>
               (let dbUpdates =
                      \<lparr>upd_alias =
                         (case title_upd updates of
                            Some (Some t) \<Rightarrow> if t = [] then None else Some (Some t)
                          | _ \<Rightarrow> None),
                       upd_is_public = isPublic_upd updates,
                       upd_updated_at = None\<rparr>;
                    (r2, s3) = db_update i dbUpdates s2 in
                case error r2 of
                  Some dbError \<Rightarrow> (Inl dbError, s3)
                | None \<Rightarrow>
                    (case data r2 of
                       None \<Rightarrow> (Inl TypeError, s3)
                     | Some doc \<Rightarrow>
                         (case or_null (content_upd updates) of
                            Some c \<Rightarrow> (Inr (as_file doc c), s3)
                          | None \<Rightarrow>
                              (let (c, s4) = getFileContent (storage_path doc) s3 in
                               case c of
                                 Inl e \<Rightarrow> (Inl e, s4)
                               | Inr x \<Rightarrow> (Inr (as_file doc x), s4)))))))"

definition deleteDocument :: "uuid \<Rightarrow> backend \<Rightarrow> (failure + unit) \<times> backend" where
  "deleteDocument i s =
     (let (r0, s1) = db_select_single i s in
      case data r0 of
        None \<Rightarrow> (Inl DocumentNotFound, s1)
      | Some doc \<Rightarrow>
          (let (r1, s2) = storage_remove (storage_path doc) s1 in
           case error r1 of
             Some storageError \<Rightarrow> (Inl storageError, s2)
           | None \<Rightarrow>
               (let (r2, s3) = db_delete i s2 in
                case error r2 of
                  Some dbError \<Rightarrow> (Inl dbError, s3)
                | None \<Rightarrow> (Inr (), s3))))"

section \<open>The second copy of the document module\<close>

text \<open>
  The source files hold a second copy of the module, after the authentication code in
  the file auth.ts. Its \<^verbatim>\<open>getFileContent\<close> and \<^verbatim>\<open>deleteDocument\<close> are the same text as in
  documents.ts, so \<open>getFileContent\<close> and \<open>deleteDocument\<close> above stand for both. The four
  operations that differ are embedded here under their names with the suffix 2.
\<close>

text \<open>The object literal of this copy: the title is the stored alias, as it is.\<close>

definition as_file2 :: "row \<Rightarrow> string \<Rightarrow> MarkdownFile" where
  "as_file2 doc c =
     \<lparr>title = alias doc,
      fileName = file_name doc,
      content = c,
      userId = user_id doc,
      isPublic = is_public doc,
      id_fld = id_col doc,
      createdAt = created_at doc,
      updatedAt = updated_at doc\<rparr>"

text \<open>
  Here each callback catches its own failure, logs it and gives \<^verbatim>\<open>null\<close>; the \<^verbatim>\<open>null\<close>s are
  filtered out of the result.
\<close>

fun load_each2 :: "row list \<Rightarrow> backend \<Rightarrow> MarkdownFile option list \<times> backend" where
  "load_each2 [] s = ([], s)"
| "load_each2 (doc # ds) s =
     (let (c, s1) = getFileContent (storage_path doc) s;
          (rs, s2) = load_each2 ds s1
      in ((case c of Inl e \<Rightarrow> None | Inr x \<Rightarrow> Some (as_file2 doc x)) # rs, s2))"

definition getDocuments2 :: "backend \<Rightarrow> (failure + MarkdownFile list) \<times> backend" where
  "getDocuments2 s =
     (let (r, s1) = db_select_all s in
      case error r of
        Some e \<Rightarrow> (Inl e, s1)
      | None \<Rightarrow>
          (case data r of
             None \<Rightarrow> (Inl TypeError, s1)
           | Some documents \<Rightarrow>
               (let (docs, s2) = load_each2 documents s1
                in (Inr (map the (filter (\<lambda>doc. doc \<noteq> None) docs)), s2))))"

definition getDocument2 :: "uuid \<Rightarrow> backend \<Rightarrow> (failure + MarkdownFile option) \<times> backend" where
  "getDocument2 i s =
     (let (r, s1) = db_select_single i s in
      case error r of
        Some docError \<Rightarrow> (Inr None, s1)
      | None \<Rightarrow>
          (case data r of
             None \<Rightarrow> (Inr None, s1)
           | Some doc \<Rightarrow>
               (let (c, s2) = getFileContent (storage_path doc) s1 in
                case c of
                  Inl e \<Rightarrow> (Inr None, s2)
                | Inr x \<Rightarrow> (Inr (Some (as_file2 doc x)), s2))))"

text \<open>The blob path is built from the file name given by the caller.\<close>

definition createDocument2 :: "document_input \<Rightarrow> backend \<Rightarrow> (failure + MarkdownFile) \<times> backend" where
  "createDocument2 document s =
     (let (r0, s1) = rpc_generate_uuid s in
      case data r0 of
        None \<Rightarrow> (Inl TypeError, s1)
      | Some docId \<Rightarrow>
          (case error r0 of
             Some idError \<Rightarrow> (Inl idError, s1)
           | None \<Rightarrow>
               (let storagePath = userId document @ ''/'' @ fileName document;
                    (r1, s2) = db_insert
                       \<lparr>id_col = docId, alias = title document,
                        file_name = fileName document, user_id = userId document,
                        is_public = isPublic document, storage_path = storagePath\<rparr> s1
                in case error r1 of
                     Some dbError \<Rightarrow> (Inl dbError, s2)
                   | None \<Rightarrow>
                       (let (r2, s3) = storage_upload storagePath (content document) s2 in
                        case error r2 of
                          Some uploadError \<Rightarrow>
                            (let (r3, s4) = db_delete docId s3 in (Inl uploadError, s4))
                        | None \<Rightarrow>
                            (case data r1 of
                               None \<Rightarrow> (Inl TypeError, s3)
                             | Some doc \<Rightarrow> (Inr (as_file2 doc (content document)), s3))))))"

text \<open>
  Here \<^verbatim>\<open>dbUpdates\<close> starts with \<^verbatim>\<open>updated_at: new Date().toISOString()\<close> (the time of the
  model's clock), and a title is written whenever it is not \<^verbatim>\<open>undefined\<close>.
\<close>

definition updateDocument2 ::
  "uuid \<Rightarrow> document_updates \<Rightarrow> backend \<Rightarrow> (failure + MarkdownFile) \<times> backend" where
  "updateDocument2 i updates s =
     (let (r0, s1) = db_select_single i s in
      case data r0 of
        None \<Rightarrow> (Inl DocumentNotFound, s1)
      | Some currentDoc \<Rightarrow>
          (let (uploadError, s2) =
                 (case content_upd updates of
                    None \<Rightarrow> (None, s1)
                  | Some c \<Rightarrow>
                      (let (r1, s') = storage_update (storage_path currentDoc) c s1
                       in (error r1, s'))) in
           case uploadError of
             Some e \<Rightarrow> (Inl e, s2)
           | None \<Rightarrow>
               (let dbUpdates =
                      \<lparr>upd_alias = title_upd updates,
                       upd_is_public = isPublic_upd updates,
                       upd_updated_at = Some (clock s2)\<rparr>;
                    (r2, s3) = db_update i dbUpdates s2 in
                case error r2 of
                  Some dbError \<Rightarrow> (Inl dbError, s3)
                | None \<Rightarrow>
                    (case data r2 of
                       None \<Rightarrow> (Inl TypeError, s3)
                     | Some doc \<Rightarrow>
                         (case or_null (content_upd updates) of
                            Some c \<Rightarrow> (Inr (as_file2 doc c), s3)
                          | None \<Rightarrow>
                              (let (c, s4) = getFileContent (storage_path doc) s3 in
                               case c of
                                 Inl e \<Rightarrow> (Inl e, s4)
                               | Inr x \<Rightarrow> (Inr (as_file2 doc x), s4)))))))"

section \<open>Notions used in the statements\<close>

text \<open>
  What every call does apart from its effect on table, bucket and id supply: it uses up one
  entry of \<open>faults\<close>, lets the clock tick and is recorded with the error it was answered with.
\<close>

definition answered :: "call \<Rightarrow> failure option \<Rightarrow> backend \<Rightarrow> backend \<Rightarrow> bool" where
  "answered c e s s' \<longleftrightarrow>
     faults s' = tl (faults s) \<and> clock s' = Suc (clock s) \<and> trace s' = trace s @ [(c, e)]"

text \<open>The error a call is answered with: the fault put in its way, or else its own.\<close>

definition natural :: "backend \<Rightarrow> failure option \<Rightarrow> failure option" where
  "natural s e = (case next_fault s of Some f \<Rightarrow> Some f | None \<Rightarrow> e)"

text \<open>The rows the two copies of \<^verbatim>\<open>createDocument\<close> insert for a document and an id.\<close>

definition new_row :: "document_input \<Rightarrow> uuid \<Rightarrow> row_insert" where
  "new_row document docId =
     \<lparr>id_col = docId, alias = or_null (title document), file_name = docId @ ''.md'',
      user_id = userId document, is_public = isPublic document,
      storage_path = userId document @ ''/'' @ docId @ ''.md''\<rparr>"

definition new_row2 :: "document_input \<Rightarrow> uuid \<Rightarrow> row_insert" where
  "new_row2 document docId =
     \<lparr>id_col = docId, alias = title document, file_name = fileName document,
      user_id = userId document, is_public = isPublic document,
      storage_path = userId document @ ''/'' @ fileName document\<rparr>"

text \<open>
  The common shape of the two copies of \<^verbatim>\<open>createDocument\<close>: they differ in the row inserted
  and in the object returned.
\<close>

definition create_with ::
  "(document_input \<Rightarrow> uuid \<Rightarrow> row_insert) \<Rightarrow> (row \<Rightarrow> string \<Rightarrow> MarkdownFile) \<Rightarrow>
   document_input \<Rightarrow> backend \<Rightarrow> (failure + MarkdownFile) \<times> backend" where
  "create_with mk_row mk_file document s =
     (let (r0, s1) = rpc_generate_uuid s in
      case data r0 of
        None \<Rightarrow> (Inl TypeError, s1)
      | Some docId \<Rightarrow>
          (case error r0 of
             Some idError \<Rightarrow> (Inl idError, s1)
           | None \<Rightarrow>
               (let (r1, s2) = db_insert (mk_row document docId) s1
                in case error r1 of
                     Some dbError \<Rightarrow> (Inl dbError, s2)
                   | None \<Rightarrow>
                       (let (r2, s3) = storage_upload (storage_path (mk_row document docId))
                                         (content document) s2 in
                        case error r2 of
                          Some uploadError \<Rightarrow>
                            (let (r3, s4) = db_delete docId s3 in (Inl uploadError, s4))
                        | None \<Rightarrow>
                            (case data r1 of
                               None \<Rightarrow> (Inl TypeError, s3)
                             | Some doc \<Rightarrow> (Inr (mk_file doc (content document)), s3))))))"

text \<open>The object \<^verbatim>\<open>dbUpdates\<close> of the two copies of \<^verbatim>\<open>updateDocument\<close>.\<close>

definition sent_updates :: "document_updates \<Rightarrow> timestamp \<Rightarrow> db_updates" where
  "sent_updates updates now =
     \<lparr>upd_alias =
        (case title_upd updates of
           Some (Some t) \<Rightarrow> if t = [] then None else Some (Some t)
         | _ \<Rightarrow> None),
      upd_is_public = isPublic_upd updates,
      upd_updated_at = None\<rparr>"

definition sent_updates2 :: "document_updates \<Rightarrow> timestamp \<Rightarrow> db_updates" where
  "sent_updates2 updates now =
     \<lparr>upd_alias = title_upd updates,
      upd_is_public = isPublic_upd updates,
      upd_updated_at = Some now\<rparr>"

text \<open>The common shape of the two copies of \<^verbatim>\<open>updateDocument\<close>.\<close>

definition update_with ::
  "(document_updates \<Rightarrow> timestamp \<Rightarrow> db_updates) \<Rightarrow> (row \<Rightarrow> string \<Rightarrow> MarkdownFile) \<Rightarrow>
   uuid \<Rightarrow> document_updates \<Rightarrow> backend \<Rightarrow> (failure + MarkdownFile) \<times> backend" where
  "update_with mk_updates mk_file i updates s =
     (let (r0, s1) = db_select_single i s in
      case data r0 of
        None \<Rightarrow> (Inl DocumentNotFound, s1)
      | Some currentDoc \<Rightarrow>
          (let (uploadError, s2) =
                 (case content_upd updates of
                    None \<Rightarrow> (None, s1)
                  | Some c \<Rightarrow>
                      (let (r1, s') = storage_update (storage_path currentDoc) c s1
                       in (error r1, s'))) in
           case uploadError of
             Some e \<Rightarrow> (Inl e, s2)
           | None \<Rightarrow>
               (let (r2, s3) = db_update i (mk_updates updates (clock s2)) s2 in
                case error r2 of
                  Some dbError \<Rightarrow> (Inl dbError, s3)
                | None \<Rightarrow>
                    (case data r2 of
                       None \<Rightarrow> (Inl TypeError, s3)
                     | Some doc \<Rightarrow>
                         (case or_null (content_upd updates) of
                            Some c \<Rightarrow> (Inr (mk_file doc c), s3)
                          | None \<Rightarrow>
                              (let (c, s4) = getFileContent (storage_path doc) s3 in
                               case c of
                                 Inl e \<Rightarrow> (Inl e, s4)
                               | Inr x \<Rightarrow> (Inr (mk_file doc x), s4)))))))"

text \<open>
  The record of the blob write of an update that went through (none when the update has
  no content), and the bucket after it.
\<close>

definition blob_write :: "document_updates \<Rightarrow> path \<Rightarrow> (call \<times> failure option) list" where
  "blob_write u p = (case content_upd u of None \<Rightarrow> [] | Some c \<Rightarrow> [(StorageUpdate p c, None)])"

definition blobs_written :: "document_updates \<Rightarrow> path \<Rightarrow> (path \<times> string) list \<Rightarrow> (path \<times> string) list" where
  "blobs_written u p bs = (case content_upd u of None \<Rightarrow> bs | Some c \<Rightarrow> overwrite p c bs)"

text \<open>A small backend and a document to create in it, for running the operations.\<close>

definition demo_backend :: backend where
  "demo_backend =
     \<lparr>rows = [\<lparr>id_col = ''d1'', alias = None, file_name = ''d1.md'', user_id = ''ann'',
               is_public = False, storage_path = ''ann/d1.md'', created_at = 1, updated_at = 1\<rparr>],
      blobs = [(''ann/d1.md'', ''# one'')],
      uuids = [''d2''],
      clock = 5,
      faults = [],
      trace = []\<rparr>"

definition demo_input :: document_input where
  "demo_input = \<lparr>title = None, fileName = ''notes.md'', content = ''# two'', userId = ''ann'',
     isPublic = False\<rparr>"


text \<open>The backend carries out the next \<open>n\<close> calls: no error is put in their way.\<close>

definition faithful :: "nat \<Rightarrow> backend \<Rightarrow> bool" where
  "faithful n s \<longleftrightarrow> set (take n (faults s)) \<subseteq> {None}"

text \<open>
  The common shape of the two copies of \<^verbatim>\<open>getDocument\<close>: they differ in what becomes of an
  error (thrown, or logged and turned into \<^verbatim>\<open>null\<close>) and in the object returned.
\<close>

definition get_with ::
  "(failure \<Rightarrow> failure + MarkdownFile option) \<Rightarrow> (row \<Rightarrow> string \<Rightarrow> MarkdownFile) \<Rightarrow>
   uuid \<Rightarrow> backend \<Rightarrow> (failure + MarkdownFile option) \<times> backend" where
  "get_with on_error mk_file i s =
     (let (r, s1) = db_select_single i s in
      case error r of
        Some e \<Rightarrow> (on_error e, s1)
      | None \<Rightarrow>
          (case data r of
             None \<Rightarrow> (Inr None, s1)
           | Some doc \<Rightarrow>
               (let (c, s2) = getFileContent (storage_path doc) s1 in
                case c of
                  Inl e \<Rightarrow> (on_error e, s2)
                | Inr x \<Rightarrow> (Inr (Some (mk_file doc x)), s2))))"

text \<open>An update of the sample document: new content, made public.\<close>

definition demo_updates :: document_updates where
  "demo_updates = \<lparr>title_upd = None, fileName_upd = None, content_upd = Some ''# new'',
     userId_upd = None, isPublic_upd = Some True\<rparr>"

text \<open>The columns of a row that \<^verbatim>\<open>updateDocument\<close> is claimed to leave alone.\<close>

definition fixed_columns :: "row \<Rightarrow> uuid \<times> string \<times> uuid \<times> path \<times> timestamp" where
  "fixed_columns r = (id_col r, file_name r, user_id r, storage_path r, created_at r)"

text \<open>The rows in the order \<^verbatim>\<open>order('created_at', { ascending: false })\<close> asks for.\<close>

definition newest_first :: "row list \<Rightarrow> row list" where
  "newest_first rs = rev (sort_key created_at rs)"

text \<open>The error a promise was rejected with, if it was.\<close>

definition settled :: "(failure + 'a) \<Rightarrow> failure option" where
  "settled r = (case r of Inl e \<Rightarrow> Some e | Inr x \<Rightarrow> None)"

text \<open>\<^verbatim>\<open>docs.filter(doc => doc !== null)\<close>\<close>

definition kept :: "'a option list \<Rightarrow> 'a list" where
  "kept rs = map the (filter (\<lambda>doc. doc \<noteq> None) rs)"


text \<open>
  The fault put in the way of the call number \<open>n\<close> from the backend \<open>s\<close> on (the next call
  has number 0), and the error that call is answered with when its own answer, on a
  backend that puts nothing in its way, would be \<open>own\<close>.
\<close>

definition fault_at :: "nat \<Rightarrow> backend \<Rightarrow> failure option" where
  "fault_at n s = (case drop n (faults s) of [] \<Rightarrow> None | f # fs \<Rightarrow> f)"

definition answer :: "nat \<Rightarrow> backend \<Rightarrow> failure option \<Rightarrow> failure option" where
  "answer n s own = (case fault_at n s of Some f \<Rightarrow> Some f | None \<Rightarrow> own)"

section \<open>The backend calls, one by one\<close>

lemmas call_unfold = take_fault_def failed_def ok_def finish_def answered_def natural_def

lemma rpc_generate_uuid_eq:
  "rpc_generate_uuid s = (r, s') \<Longrightarrow>
     answered RpcGenerateUuid (error r) s s' \<and> rows s' = rows s \<and> blobs s' = blobs s \<and>
     data r = (if error r = None then Some (hd (uuids s)) else None) \<and>
     uuids s' = (if error r = None then tl (uuids s) else uuids s)"
  by (auto simp: rpc_generate_uuid_def call_unfold split: option.splits if_splits list.splits)

lemma rpc_generate_uuid_err:
  "rpc_generate_uuid s = (r, s') \<Longrightarrow>
     error r = natural s (if uuids s = [] then Some (Backend ''generate_uuid'') else None)"
  by (auto simp: rpc_generate_uuid_def call_unfold split: option.splits if_splits list.splits)

lemma db_select_all_eq:
  "db_select_all s = (r, s') \<Longrightarrow>
     answered SelectAllNewestFirst (error r) s s' \<and> rows s' = rows s \<and> blobs s' = blobs s \<and>
     uuids s' = uuids s \<and>
     data r = (if error r = None then Some (rev (sort_key created_at (rows s))) else None)"
  by (auto simp: db_select_all_def call_unfold split: option.splits if_splits list.splits)

lemma db_select_all_err:
  "db_select_all s = (r, s') \<Longrightarrow> error r = natural s None"
  by (auto simp: db_select_all_def call_unfold split: option.splits if_splits list.splits)

lemma db_select_single_eq:
  "db_select_single i s = (r, s') \<Longrightarrow>
     answered (SelectSingle i) (error r) s s' \<and> rows s' = rows s \<and> blobs s' = blobs s \<and>
     uuids s' = uuids s \<and>
     (case data r of
        None \<Rightarrow> error r \<noteq> None
      | Some d \<Rightarrow> error r = None \<and> filter (\<lambda>r. id_col r = i) (rows s) = [d])"
  by (auto simp: db_select_single_def call_unfold split: option.splits if_splits list.splits)

lemma db_select_single_err:
  "db_select_single i s = (r, s') \<Longrightarrow>
     error r = natural s (case filter (\<lambda>r. id_col r = i) (rows s) of [d] \<Rightarrow> None
                          | _ \<Rightarrow> Some (Backend ''PGRST116''))"
  by (auto simp: db_select_single_def call_unfold split: option.splits if_splits list.splits)

lemma db_insert_eq:
  "db_insert p s = (r, s') \<Longrightarrow>
     answered (Insert p) (error r) s s' \<and> blobs s' = blobs s \<and> uuids s' = uuids s \<and>
     data r = (if error r = None then Some (stamped p (clock s)) else None) \<and>
     rows s' = (if error r = None then rows s @ [stamped p (clock s)] else rows s) \<and>
     (error r = None \<longrightarrow> id_col p \<notin> set (map id_col (rows s)))"
  by (auto simp: db_insert_def call_unfold Let_def split: option.splits if_splits list.splits)

lemma db_insert_err:
  "db_insert p s = (r, s') \<Longrightarrow>
     error r = natural s (if id_col p \<in> set (map id_col (rows s)) then Some (Backend ''23505'') else None)"
  by (auto simp: db_insert_def call_unfold Let_def split: option.splits if_splits list.splits)

lemma db_update_eq:
  "db_update i u s = (r, s') \<Longrightarrow>
     answered (Update i u) (error r) s s' \<and> blobs s' = blobs s \<and> uuids s' = uuids s \<and>
     (case data r of
        None \<Rightarrow> error r \<noteq> None
      | Some d' \<Rightarrow> error r = None \<and>
          (\<exists>d. filter (\<lambda>r. id_col r = i) (rows s) = [d] \<and> d' = apply_updates u (clock s) d)) \<and>
     rows s' = (if error r = None
                then map (\<lambda>r. if id_col r = i then apply_updates u (clock s) r else r) (rows s)
                else rows s)"
  by (auto simp: db_update_def call_unfold Let_def split: option.splits if_splits list.splits)

lemma db_update_err:
  "db_update i u s = (r, s') \<Longrightarrow>
     error r = natural s (case filter (\<lambda>r. id_col r = i) (rows s) of [d] \<Rightarrow> None
                          | _ \<Rightarrow> Some (Backend ''PGRST116''))"
  by (auto simp: db_update_def call_unfold Let_def split: option.splits if_splits list.splits)

lemma db_delete_eq:
  "db_delete i s = (r, s') \<Longrightarrow>
     answered (Delete i) (error r) s s' \<and> blobs s' = blobs s \<and> uuids s' = uuids s \<and>
     data r = (if error r = None then Some () else None) \<and>
     rows s' = (if error r = None then filter (\<lambda>r. id_col r \<noteq> i) (rows s) else rows s)"
  by (auto simp: db_delete_def call_unfold Let_def split: option.splits if_splits list.splits)

lemma db_delete_err:
  "db_delete i s = (r, s') \<Longrightarrow> error r = natural s None"
  by (auto simp: db_delete_def call_unfold Let_def split: option.splits if_splits list.splits)

lemma storage_upload_eq:
  "storage_upload p c s = (r, s') \<Longrightarrow>
     answered (StorageUpload p c) (error r) s s' \<and> rows s' = rows s \<and> uuids s' = uuids s \<and>
     data r = (if error r = None then Some () else None) \<and>
     blobs s' = (if error r = None then blobs s @ [(p, c)] else blobs s) \<and>
     (error r = None \<longrightarrow> p \<notin> set (map fst (blobs s)))"
  by (auto simp: storage_upload_def call_unfold split: option.splits if_splits)

lemma storage_upload_err:
  "storage_upload p c s = (r, s') \<Longrightarrow>
     error r = natural s (if p \<in> set (map fst (blobs s)) then Some (Backend ''Duplicate'') else None)"
  by (auto simp: storage_upload_def call_unfold split: option.splits if_splits)

lemma storage_update_eq:
  "storage_update p c s = (r, s') \<Longrightarrow>
     answered (StorageUpdate p c) (error r) s s' \<and> rows s' = rows s \<and> uuids s' = uuids s \<and>
     data r = (if error r = None then Some () else None) \<and>
     blobs s' = (if error r = None
                 then overwrite p c (blobs s) else blobs s) \<and>
     (error r = None \<longrightarrow> p \<in> set (map fst (blobs s)))"
  by (auto simp: storage_update_def call_unfold split: option.splits if_splits)

lemma storage_update_err:
  "storage_update p c s = (r, s') \<Longrightarrow>
     error r = natural s (if p \<in> set (map fst (blobs s)) then None else Some (Backend ''NotFound''))"
  by (auto simp: storage_update_def call_unfold split: option.splits if_splits)

lemma storage_remove_eq:
  "storage_remove p s = (r, s') \<Longrightarrow>
     answered (StorageRemove p) (error r) s s' \<and> rows s' = rows s \<and> uuids s' = uuids s \<and>
     data r = (if error r = None then Some () else None) \<and>
     blobs s' = (if error r = None then filter (\<lambda>(q, d). q \<noteq> p) (blobs s) else blobs s)"
  by (auto simp: storage_remove_def call_unfold split: option.splits if_splits)

lemma storage_remove_err:
  "storage_remove p s = (r, s') \<Longrightarrow> error r = natural s None"
  by (auto simp: storage_remove_def call_unfold split: option.splits if_splits)

lemma storage_download_eq:
  "storage_download p s = (r, s') \<Longrightarrow>
     answered (StorageDownload p) (error r) s s' \<and> rows s' = rows s \<and> uuids s' = uuids s \<and>
     blobs s' = blobs s \<and>
     (case data r of None \<Rightarrow> error r \<noteq> None
      | Some c \<Rightarrow> error r = None \<and> map_of (blobs s) p = Some c)"
  by (auto simp: storage_download_def call_unfold split: option.splits if_splits)

lemma storage_download_err:
  "storage_download p s = (r, s') \<Longrightarrow>
     error r = natural s (case map_of (blobs s) p of None \<Rightarrow> Some (Backend ''NotFound'')
                          | Some c \<Rightarrow> None)"
  by (auto simp: storage_download_def call_unfold split: option.splits if_splits)

lemma getFileContent_eq:
  "getFileContent p s = (c, s') \<Longrightarrow>
     rows s' = rows s \<and> uuids s' = uuids s \<and> blobs s' = blobs s \<and>
     (case c of
        Inl e \<Rightarrow> answered (StorageDownload p) (Some e) s s'
      | Inr x \<Rightarrow> answered (StorageDownload p) None s s' \<and> map_of (blobs s) p = Some x)"
  by (auto simp: getFileContent_def Let_def split: prod.splits option.splits sum.splits
      dest!: storage_download_eq)

lemma getFileContent_err:
  "getFileContent p s = (c, s') \<Longrightarrow>
     (case c of Inl e \<Rightarrow> Some e | Inr x \<Rightarrow> None) =
       natural s (case map_of (blobs s) p of None \<Rightarrow> Some (Backend ''NotFound'')
                  | Some c \<Rightarrow> None)"
  apply (clarsimp simp: getFileContent_def Let_def split: prod.splits)
  apply (frule storage_download_eq)
  apply (drule storage_download_err)
  apply (auto split: option.splits)
  done


lemma createDocument_shape: "createDocument = create_with new_row as_file"
  by (intro ext)
    (simp add: createDocument_def create_with_def new_row_def Let_def
      split: prod.splits option.splits)

lemma createDocument2_shape: "createDocument2 = create_with new_row2 as_file2"
  by (intro ext)
    (simp add: createDocument2_def create_with_def new_row2_def Let_def
      split: prod.splits option.splits)

lemma updateDocument_shape: "updateDocument = update_with sent_updates as_file"
  by (intro ext)
    (simp add: updateDocument_def update_with_def sent_updates_def Let_def
      split: prod.splits option.splits sum.splits)

lemma updateDocument2_shape: "updateDocument2 = update_with sent_updates2 as_file2"
  by (intro ext)
    (simp add: updateDocument2_def update_with_def sent_updates2_def Let_def
      split: prod.splits option.splits sum.splits)

lemma natural_at:
  "faults s' = drop n (faults s) \<Longrightarrow> natural s' own = answer n s own"
  by (simp add: natural_def answer_def next_fault_def fault_at_def)

lemma natural_at0: "natural s own = answer 0 s own"
  by (simp add: natural_at)

lemma faults_step:
  "faults s'' = tl (faults s') \<Longrightarrow> faults s' = drop n (faults s) \<Longrightarrow>
     faults s'' = drop (Suc n) (faults s)"
  by (simp add: drop_Suc tl_drop)

lemma faults_step0: "faults s' = tl (faults s) \<Longrightarrow> faults s' = drop (Suc 0) (faults s)"
  by (simp add: drop_Suc)

section \<open>The runs of the operations\<close>


lemma filter_other_id:
  "i \<notin> set (map id_col rs) \<Longrightarrow> filter (\<lambda>r. id_col r \<noteq> i) rs = rs"
  by (induction rs) auto

lemma filter_absent_id:
  "i \<notin> set (map id_col rs) \<Longrightarrow> filter (\<lambda>r. id_col r = i) rs = []"
  by (induction rs) auto

lemma create_with_cases [consumes 2, case_names rpc_failed insert_failed upload_failed created]:
  assumes "create_with mk_row mk_file d s = (res, s')"
    and key: "\<And>d u. id_col (mk_row d u) = u"
  obtains
    e where "res = Inl TypeError" "trace s' = trace s @ [(RpcGenerateUuid, Some e)]"
      "rows s' = rows s" "blobs s' = blobs s" "faults s' = tl (faults s)"
  | e where "res = Inl e"
      "trace s' = trace s @ [(RpcGenerateUuid, None), (Insert (mk_row d (hd (uuids s))), Some e)]"
      "rows s' = rows s" "blobs s' = blobs s" "faults s' = tl (tl (faults s))"
  | e fd where "res = Inl e"
      "trace s' = trace s @ [(RpcGenerateUuid, None), (Insert (mk_row d (hd (uuids s))), None),
         (StorageUpload (storage_path (mk_row d (hd (uuids s)))) (content d), Some e),
         (Delete (hd (uuids s)), fd)]"
      "rows s' = (if fd = None then rows s
                  else rows s @ [stamped (mk_row d (hd (uuids s))) (Suc (clock s))])"
      "hd (uuids s) \<notin> set (map id_col (rows s))"
      "blobs s' = blobs s" "faults s' = tl (tl (tl (tl (faults s))))"
  | "res = Inr (mk_file (stamped (mk_row d (hd (uuids s))) (Suc (clock s))) (content d))"
      "trace s' = trace s @ [(RpcGenerateUuid, None), (Insert (mk_row d (hd (uuids s))), None),
         (StorageUpload (storage_path (mk_row d (hd (uuids s)))) (content d), None)]"
      "rows s' = rows s @ [stamped (mk_row d (hd (uuids s))) (Suc (clock s))]"
      "hd (uuids s) \<notin> set (map id_col (rows s))"
      "blobs s' = blobs s @ [(storage_path (mk_row d (hd (uuids s))), content d)]"
      "storage_path (mk_row d (hd (uuids s))) \<notin> set (map fst (blobs s))"
      "faults s' = tl (tl (tl (faults s)))"
proof -
  let ?u = "hd (uuids s)"
  let ?ins = "mk_row d ?u"
  obtain r0 s1 where c0: "rpc_generate_uuid s = (r0, s1)" by force
  note f0 = rpc_generate_uuid_eq [OF c0, unfolded answered_def]
  show thesis
  proof (cases "error r0")
    case (Some e)
    with f0 assms(1) c0 show thesis
      by (intro that(1) [of e]) (auto simp: create_with_def)
  next
    case None
    obtain r1 s2 where c1: "db_insert ?ins s1 = (r1, s2)" by force
    note f1 = db_insert_eq [OF c1, unfolded answered_def key]
    have step1: "create_with mk_row mk_file d s =
      (case error r1 of
         Some dbError \<Rightarrow> (Inl dbError, s2)
       | None \<Rightarrow>
           (let (r2, s3) = storage_upload (storage_path ?ins) (content d) s2 in
            case error r2 of
              Some uploadError \<Rightarrow> (let (r3, s4) = db_delete ?u s3 in (Inl uploadError, s4))
            | None \<Rightarrow>
                (case data r1 of
                   None \<Rightarrow> (Inl TypeError, s3)
                 | Some doc \<Rightarrow> (Inr (mk_file doc (content d)), s3))))"
      using c0 c1 None f0
      by (simp add: create_with_def Let_def split: option.splits prod.splits)
    show thesis
    proof (cases "error r1")
      case (Some e)
      with None f0 f1 assms(1) step1 show thesis
        by (intro that(2) [of e]) auto
    next
      case ins: None
      obtain r2 s3 where c2: "storage_upload (storage_path ?ins) (content d) s2 = (r2, s3)"
        by force
      note f2 = storage_upload_eq [OF c2, unfolded answered_def]
      show thesis
      proof (cases "error r2")
        case (Some e)
        obtain r3 s4 where c3: "db_delete ?u s3 = (r3, s4)" by force
        note f3 = db_delete_eq [OF c3, unfolded answered_def]
        have "?u \<notin> set (map id_col (rows s))" using f1 f0 ins by simp
        then have "filter (\<lambda>r. id_col r \<noteq> ?u) (rows s @ [stamped ?ins (Suc (clock s))]) = rows s"
          by (simp add: filter_other_id stamped_def key)
        with Some ins None f0 f1 f2 f3 assms(1) step1 c2 c3 show thesis
          by (intro that(3) [of e "error r3"]) auto
      next
        case up: None
        with ins None f0 f1 f2 assms(1) step1 c2 show thesis
          by (intro that(4)) auto
      qed
    qed
  qed
qed

lemma deleteDocument_cases [consumes 1, case_names not_found remove_failed delete_failed deleted]:
  assumes "deleteDocument i s = (res, s')"
  obtains
    e where "res = Inl DocumentNotFound" "trace s' = trace s @ [(SelectSingle i, Some e)]"
      "rows s' = rows s" "blobs s' = blobs s"
  | doc e where "filter (\<lambda>r. id_col r = i) (rows s) = [doc]" "res = Inl e"
      "trace s' = trace s @ [(SelectSingle i, None), (StorageRemove (storage_path doc), Some e)]"
      "rows s' = rows s" "blobs s' = blobs s"
  | doc e where "filter (\<lambda>r. id_col r = i) (rows s) = [doc]" "res = Inl e"
      "trace s' = trace s @ [(SelectSingle i, None), (StorageRemove (storage_path doc), None),
         (Delete i, Some e)]"
      "rows s' = rows s"
      "blobs s' = filter (\<lambda>(q, d). q \<noteq> storage_path doc) (blobs s)"
  | doc where "filter (\<lambda>r. id_col r = i) (rows s) = [doc]" "res = Inr ()"
      "trace s' = trace s @ [(SelectSingle i, None), (StorageRemove (storage_path doc), None),
         (Delete i, None)]"
      "rows s' = filter (\<lambda>r. id_col r \<noteq> i) (rows s)"
      "blobs s' = filter (\<lambda>(q, d). q \<noteq> storage_path doc) (blobs s)"
proof -
  obtain r0 s1 where c0: "db_select_single i s = (r0, s1)" by force
  note f0 = db_select_single_eq [OF c0, unfolded answered_def]
  show thesis
  proof (cases "data r0")
    case None
    with f0 obtain e where "error r0 = Some e" by auto
    with None f0 assms c0 show thesis
      by (intro that(1) [of e]) (auto simp: deleteDocument_def)
  next
    case (Some doc)
    obtain r1 s2 where c1: "storage_remove (storage_path doc) s1 = (r1, s2)" by force
    note f1 = storage_remove_eq [OF c1, unfolded answered_def]
    show thesis
    proof (cases "error r1")
      case e: (Some e)
      with Some f0 f1 assms c0 c1 show thesis
        by (intro that(2) [of doc e]) (auto simp: deleteDocument_def)
    next
      case rm: None
      obtain r2 s3 where c2: "db_delete i s2 = (r2, s3)" by force
      note f2 = db_delete_eq [OF c2, unfolded answered_def]
      show thesis
      proof (cases "error r2")
        case e: (Some e)
        with rm Some f0 f1 f2 assms c0 c1 c2 show thesis
          by (intro that(3) [of doc e]) (auto simp: deleteDocument_def)
      next
        case None
        with rm Some f0 f1 f2 assms c0 c1 c2 show thesis
          by (intro that(4) [of doc]) (auto simp: deleteDocument_def)
      qed
    qed
  qed
qed

lemma update_with_cases [consumes 1, case_names not_found blob_failed row_failed updated
    reread_failed reread]:
  assumes "update_with mk_updates mk_file i u s = (res, s')"
  obtains
    e where "res = Inl DocumentNotFound" "trace s' = trace s @ [(SelectSingle i, Some e)]"
      "rows s' = rows s" "blobs s' = blobs s"
  | cur c e where "filter (\<lambda>r. id_col r = i) (rows s) = [cur]" "content_upd u = Some c"
      "res = Inl e"
      "trace s' = trace s @ [(SelectSingle i, None), (StorageUpdate (storage_path cur) c, Some e)]"
      "rows s' = rows s" "blobs s' = blobs s"
  | cur k e where "filter (\<lambda>r. id_col r = i) (rows s) = [cur]" "res = Inl e"
      "trace s' = trace s @ (SelectSingle i, None) # blob_write u (storage_path cur) @
         [(Update i (mk_updates u k), Some e)]"
      "rows s' = rows s" "blobs s' = blobs_written u (storage_path cur) (blobs s)"
      "content_upd u = None \<or> storage_path cur \<in> set (map fst (blobs s))"
  | cur k c where "filter (\<lambda>r. id_col r = i) (rows s) = [cur]" "or_null (content_upd u) = Some c"
      "res = Inr (mk_file (apply_updates (mk_updates u k) k cur) c)"
      "trace s' = trace s @ (SelectSingle i, None) # blob_write u (storage_path cur) @
         [(Update i (mk_updates u k), None)]"
      "rows s' = map (\<lambda>r. if id_col r = i then apply_updates (mk_updates u k) k r else r) (rows s)"
      "blobs s' = blobs_written u (storage_path cur) (blobs s)"
      "content_upd u = None \<or> storage_path cur \<in> set (map fst (blobs s))"
  | cur k e where "filter (\<lambda>r. id_col r = i) (rows s) = [cur]" "or_null (content_upd u) = None"
      "res = Inl e"
      "trace s' = trace s @ (SelectSingle i, None) # blob_write u (storage_path cur) @
         [(Update i (mk_updates u k), None), (StorageDownload (storage_path cur), Some e)]"
      "rows s' = map (\<lambda>r. if id_col r = i then apply_updates (mk_updates u k) k r else r) (rows s)"
      "blobs s' = blobs_written u (storage_path cur) (blobs s)"
      "content_upd u = None \<or> storage_path cur \<in> set (map fst (blobs s))"
  | cur k x where "filter (\<lambda>r. id_col r = i) (rows s) = [cur]" "or_null (content_upd u) = None"
      "res = Inr (mk_file (apply_updates (mk_updates u k) k cur) x)"
      "trace s' = trace s @ (SelectSingle i, None) # blob_write u (storage_path cur) @
         [(Update i (mk_updates u k), None), (StorageDownload (storage_path cur), None)]"
      "rows s' = map (\<lambda>r. if id_col r = i then apply_updates (mk_updates u k) k r else r) (rows s)"
      "blobs s' = blobs_written u (storage_path cur) (blobs s)"
      "content_upd u = None \<or> storage_path cur \<in> set (map fst (blobs s))"
      "map_of (blobs s') (storage_path cur) = Some x"
proof -
  obtain r0 s1 where c0: "db_select_single i s = (r0, s1)" by force
  note f0 = db_select_single_eq [OF c0, unfolded answered_def]
  show thesis
  proof (cases "data r0")
    case None
    with f0 obtain e where "error r0 = Some e" by auto
    with None f0 assms c0 show thesis
      by (intro that(1) [of e]) (auto simp: update_with_def)
  next
    case (Some cur)
    let ?p = "storage_path cur"
    from Some f0 have cur: "filter (\<lambda>r. id_col r = i) (rows s) = [cur]" and e0: "error r0 = None"
      by auto
    obtain ue s2 where w:
      "(case content_upd u of
          None \<Rightarrow> (None, s1)
        | Some c \<Rightarrow> (let (r1, s') = storage_update ?p c s1 in (error r1, s'))) = (ue, s2)"
      by force
    have step: "update_with mk_updates mk_file i u s =
      (case ue of
         Some e \<Rightarrow> (Inl e, s2)
       | None \<Rightarrow>
           (let (r2, s3) = db_update i (mk_updates u (clock s2)) s2 in
            case error r2 of
              Some dbError \<Rightarrow> (Inl dbError, s3)
            | None \<Rightarrow>
                (case data r2 of
                   None \<Rightarrow> (Inl TypeError, s3)
                 | Some doc \<Rightarrow>
                     (case or_null (content_upd u) of
                        Some c \<Rightarrow> (Inr (mk_file doc c), s3)
                      | None \<Rightarrow>
                          (let (c, s4) = getFileContent (storage_path doc) s3 in
                           case c of
                             Inl e \<Rightarrow> (Inl e, s4)
                           | Inr x \<Rightarrow> (Inr (mk_file doc x), s4))))))"
      using c0 Some w by (simp add: update_with_def Let_def)
    have rows2: "rows s2 = rows s"
      using w f0 by (auto split: option.splits prod.splits dest!: storage_update_eq)
    show thesis
    proof (cases ue)
      case failed: (Some e)
      with w obtain c r1 where c: "content_upd u = Some c"
        and c1: "storage_update ?p c s1 = (r1, s2)" and e1: "error r1 = Some e"
        by (auto split: option.splits prod.splits)
      note f1 = storage_update_eq [OF c1, unfolded answered_def]
      from failed step assms cur c e1 f0 f1 e0 show thesis
        by (intro that(2) [of cur c e]) auto
    next
      case None
      have s2: "trace s2 = trace s @ (SelectSingle i, None) # blob_write u ?p"
        "blobs s2 = blobs_written u ?p (blobs s)"
        "content_upd u = None \<or> ?p \<in> set (map fst (blobs s))"
        using w None f0 e0
        by (auto simp: blob_write_def blobs_written_def answered_def
            split: option.splits prod.splits dest!: storage_update_eq)
      let ?k = "clock s2"
      let ?dbu = "mk_updates u ?k"
      obtain r2 s3 where c2: "db_update i ?dbu s2 = (r2, s3)" by force
      note f2 = db_update_eq [OF c2, unfolded answered_def rows2]
      show thesis
      proof (cases "error r2")
        case e: (Some e)
        with None step assms cur c2 f2 s2 show thesis
          by (intro that(3) [where cur = cur and k = "?k" and e = e]) auto
      next
        case upd: None
        with f2 cur have d2: "data r2 = Some (apply_updates ?dbu ?k cur)"
          by (auto split: option.splits)
        have sp: "storage_path (apply_updates ?dbu ?k cur) = ?p"
          by (simp add: apply_updates_def)
        show thesis
        proof (cases "or_null (content_upd u)")
          case (Some c)
          with upd d2 None step assms cur c2 f2 s2 show thesis
            by (intro that(4) [where cur = cur and k = "?k" and c = c]) auto
        next
          case reread: None
          obtain c s4 where c3: "getFileContent ?p s3 = (c, s4)" by force
          note f3 = getFileContent_eq [OF c3, unfolded answered_def]
          show thesis
          proof (cases c)
            case (Inl e)
            with reread upd d2 None step assms cur c2 c3 f2 f3 s2 sp show thesis
              by (intro that(5) [where cur = cur and k = "?k" and e = e]) auto
          next
            case (Inr x)
            with reread upd d2 None step assms cur c2 c3 f2 f3 s2 sp show thesis
              by (intro that(6) [where cur = cur and k = "?k" and x = x]) auto
          qed
        qed
      qed
    qed
  qed
qed

lemmas run_defs = createDocument_def createDocument2_def updateDocument_def updateDocument2_def
  deleteDocument_def getDocument_def getDocument2_def getDocuments_def getDocuments2_def
  getFileContent_def rpc_generate_uuid_def db_select_all_def db_select_single_def db_insert_def
  db_update_def db_delete_def storage_upload_def storage_update_def storage_remove_def
  storage_download_def take_fault_def next_fault_def failed_def ok_def finish_def stamped_def
  overwrite_def
  apply_updates_def or_null_def or_else_def as_file_def as_file2_def demo_backend_def
  demo_input_def Let_def

section \<open>Creating a document\<close>

lemma new_row_id: "id_col (new_row d u) = u" and new_row2_id: "id_col (new_row2 d u) = u"
  by (simp_all add: new_row_def new_row2_def)

lemma create_with_run:
  assumes key: "\<And>d u. id_col (mk_row d u) = u"
    and u: "u = hd (uuids s)" and ins: "ins = mk_row d u" and p: "p = storage_path ins"
    and a0: "a0 = answer 0 s (if uuids s = [] then Some (Backend ''generate_uuid'') else None)"
    and a1: "a1 = answer 1 s (if u \<in> set (map id_col (rows s)) then Some (Backend ''23505'')
                              else None)"
    and a2: "a2 = answer 2 s (if p \<in> set (map fst (blobs s)) then Some (Backend ''Duplicate'')
                              else None)"
    and a3: "a3 = fault_at 3 s"
  shows "fst (create_with mk_row mk_file d s) =
      (case a0 of
         Some e \<Rightarrow> Inl TypeError
       | None \<Rightarrow>
           (case a1 of
              Some e \<Rightarrow> Inl e
            | None \<Rightarrow>
                (case a2 of
                   Some e \<Rightarrow> Inl e
                 | None \<Rightarrow> Inr (mk_file (stamped ins (Suc (clock s))) (content d))))) \<and>
     trace (snd (create_with mk_row mk_file d s)) = trace s @
      (case a0 of
         Some e \<Rightarrow> [(RpcGenerateUuid, a0)]
       | None \<Rightarrow>
           (case a1 of
              Some e \<Rightarrow> [(RpcGenerateUuid, None), (Insert ins, a1)]
            | None \<Rightarrow>
                (case a2 of
                   Some e \<Rightarrow> [(RpcGenerateUuid, None), (Insert ins, None),
                               (StorageUpload p (content d), a2), (Delete u, a3)]
                 | None \<Rightarrow> [(RpcGenerateUuid, None), (Insert ins, None),
                               (StorageUpload p (content d), None)]))) \<and>
     rows (snd (create_with mk_row mk_file d s)) =
       (if a0 = None \<and> a1 = None \<and> (a2 = None \<or> a3 \<noteq> None)
        then rows s @ [stamped ins (Suc (clock s))] else rows s) \<and>
     blobs (snd (create_with mk_row mk_file d s)) =
       (if a0 = None \<and> a1 = None \<and> a2 = None then blobs s @ [(p, content d)] else blobs s)"
proof -
  obtain r0 s1 where c0: "rpc_generate_uuid s = (r0, s1)" by force
  note f0 = rpc_generate_uuid_eq [OF c0, unfolded answered_def]
  from rpc_generate_uuid_err [OF c0] have e0: "error r0 = a0" by (simp add: a0 natural_at0)
  from f0 have "faults s1 = tl (faults s)" by simp
  then have d1: "faults s1 = drop (Suc 0) (faults s)" by (rule faults_step0)
  obtain r1 s2 where c1: "db_insert ins s1 = (r1, s2)" by force
  note f1 = db_insert_eq [OF c1, unfolded answered_def]
  from db_insert_err [OF c1] f0 have e1: "error r1 = a1"
    by (simp add: a1 ins key natural_at [OF d1, simplified])
  from f1 have "faults s2 = tl (faults s1)" by simp
  from faults_step [OF this d1] have d2: "faults s2 = drop 2 (faults s)"
    by (simp only: numeral_2_eq_2)
  obtain r2 s3 where c2: "storage_upload p (content d) s2 = (r2, s3)" by force
  note f2 = storage_upload_eq [OF c2, unfolded answered_def]
  from storage_upload_err [OF c2] f0 f1 have e2: "error r2 = a2"
    by (simp add: a2 natural_at [OF d2])
  from f2 have "faults s3 = tl (faults s2)" by simp
  from faults_step [OF this d2] have d3: "faults s3 = drop 3 (faults s)"
    by (simp only: numeral_3_eq_3 numeral_2_eq_2)
  obtain r3 s4 where c3: "db_delete u s3 = (r3, s4)" by force
  note f3 = db_delete_eq [OF c3, unfolded answered_def]
  from db_delete_err [OF c3] have e3: "error r3 = a3"
    by (simp add: a3 natural_at [OF d3] answer_def split: option.splits)
  show ?thesis
  proof (cases a0)
    case (Some e)
    with e0 f0 c0 show ?thesis by (simp add: create_with_def)
  next
    case n0: None
    with e0 f0 have dat: "data r0 = Some u" by (simp add: u)
    show ?thesis
    proof (cases a1)
      case (Some e)
      with n0 e0 e1 dat f0 f1 c0 c1 show ?thesis
        by (simp add: create_with_def ins [symmetric])
    next
      case n1: None
      with e1 f1 f0 have fresh: "u \<notin> set (map id_col (rows s))" by (simp add: ins key)
      show ?thesis
      proof (cases a2)
        case (Some e)
        from fresh have "filter (\<lambda>r. id_col r \<noteq> u) (rows s @ [stamped ins (Suc (clock s))]) = rows s"
          by (simp add: filter_other_id stamped_def ins key)
        with Some n0 n1 e0 e1 e2 e3 dat f0 f1 f2 f3 c0 c1 c2 c3 show ?thesis
          by (simp add: create_with_def ins [symmetric] p [symmetric])
      next
        case None
        with n0 n1 e0 e1 e2 dat f0 f1 f2 c0 c1 c2 show ?thesis
          by (simp add: create_with_def ins [symmetric] p [symmetric])
      qed
    qed
  qed
qed

text \<open>
  Claim C1, as amended. Suppose the backend hands out the id \<open>u\<close> and inserts the row, and
  then refuses the upload with the error \<open>e\<close> (a fault, or the path is taken). Then
  \<^verbatim>\<open>createDocument\<close> (either copy) throws \<open>e\<close>, and its calls are exactly: id, insert,
  the refused upload, and one \<^verbatim>\<open>delete\<close> for the id \<open>u\<close> of the row just inserted. The
  answer to that \<^verbatim>\<open>delete\<close> is not looked at: the table is as before when the backend
  carries the delete out, and keeps the inserted row when the backend refuses it. The
  bucket is as before. Further, whenever \<^verbatim>\<open>createDocument\<close> returns a document, the new row
  is in the table and the supplied content is in the bucket at the row's path; and
  whenever it throws, the bucket is unchanged and a row is left behind only if the
  clean-up \<^verbatim>\<open>delete\<close> was refused.
\<close>

theorem C1_upload_failure_compensated:
  assumes copy: "(create, new) = (createDocument, new_row) \<or> (create, new) = (createDocument2, new_row2)"
  shows "(fault_at 0 s = None \<and> uuids s = u # us \<and>
          fault_at 1 s = None \<and> u \<notin> set (map id_col (rows s)) \<and>
          answer 2 s (if storage_path (new d u) \<in> set (map fst (blobs s))
                      then Some (Backend ''Duplicate'') else None) = Some e \<longrightarrow>
            (\<exists>s'. create d s = (Inl e, s') \<and>
               trace s' = trace s @
                 [(RpcGenerateUuid, None), (Insert (new d u), None),
                  (StorageUpload (storage_path (new d u)) (content d), Some e),
                  (Delete u, fault_at 3 s)] \<and>
               id_col (new d u) = u \<and> blobs s' = blobs s \<and>
               rows s' = (if fault_at 3 s = None then rows s
                          else rows s @ [stamped (new d u) (Suc (clock s))]))) \<and>
         (\<forall>f s'. create d s = (Inr f, s') \<longrightarrow>
            (\<exists>doc. rows s' = rows s @ [doc] \<and> id_col doc = id_fld f \<and>
               blobs s' = blobs s @ [(storage_path doc, content d)] \<and>
               map_of (blobs s') (storage_path doc) = Some (content d) \<and>
               content f = content d)) \<and>
         (\<forall>x s'. create d s = (Inl x, s') \<longrightarrow>
            blobs s' = blobs s \<and>
            (rows s' = rows s \<or>
             fault_at 3 s \<noteq> None \<and>
             rows s' = rows s @ [stamped (new d (hd (uuids s))) (Suc (clock s))]))"
proof -
  from copy obtain mk_file where
    shape: "create = create_with new mk_file" and key: "\<And>d u. id_col (new d u) = u"
    and mk: "\<And>doc c. id_fld (mk_file doc c) = id_col doc \<and> content (mk_file doc c) = c"
    by (auto simp: createDocument_shape createDocument2_shape new_row_id new_row2_id
        as_file_def as_file2_def)
  define a0 where "a0 = answer 0 s (if uuids s = [] then Some (Backend ''generate_uuid'') else None)"
  define a1 where "a1 = answer 1 s (if hd (uuids s) \<in> set (map id_col (rows s))
                                    then Some (Backend ''23505'') else None)"
  define a2 where "a2 = answer 2 s (if storage_path (new d (hd (uuids s))) \<in> set (map fst (blobs s))
                                    then Some (Backend ''Duplicate'') else None)"
  define a3 where "a3 = fault_at 3 s"
  note run = create_with_run [where mk_row = new and s = s and d = d and mk_file = mk_file,
      OF key refl refl refl a0_def a1_def a2_def a3_def, folded shape]
  note res = run [THEN conjunct1] and tr = run [THEN conjunct2, THEN conjunct1]
    and rows1 = run [THEN conjunct2, THEN conjunct2, THEN conjunct1]
    and blobs1 = run [THEN conjunct2, THEN conjunct2, THEN conjunct2]
  show ?thesis
  proof (intro conjI allI impI)
    assume pre: "fault_at 0 s = None \<and> uuids s = u # us \<and>
          fault_at 1 s = None \<and> u \<notin> set (map id_col (rows s)) \<and>
          answer 2 s (if storage_path (new d u) \<in> set (map fst (blobs s))
                      then Some (Backend ''Duplicate'') else None) = Some e"
    then have u: "hd (uuids s) = u" and a: "a0 = None" "a1 = None" "a2 = Some e"
      by (simp_all add: a0_def a1_def a2_def answer_def)
    have "create d s = (fst (create d s), snd (create d s))" by simp
    with res tr rows1 blobs1 u a
    have "create d s = (Inl e, snd (create d s)) \<and>
               trace (snd (create d s)) = trace s @
                 [(RpcGenerateUuid, None), (Insert (new d u), None),
                  (StorageUpload (storage_path (new d u)) (content d), Some e),
                  (Delete u, fault_at 3 s)] \<and>
               id_col (new d u) = u \<and> blobs (snd (create d s)) = blobs s \<and>
               rows (snd (create d s)) = (if fault_at 3 s = None then rows s
                          else rows s @ [stamped (new d u) (Suc (clock s))])"
      by (simp add: key a3_def)
    then show "\<exists>s'. create d s = (Inl e, s') \<and>
               trace s' = trace s @
                 [(RpcGenerateUuid, None), (Insert (new d u), None),
                  (StorageUpload (storage_path (new d u)) (content d), Some e),
                  (Delete u, fault_at 3 s)] \<and>
               id_col (new d u) = u \<and> blobs s' = blobs s \<and>
               rows s' = (if fault_at 3 s = None then rows s
                          else rows s @ [stamped (new d u) (Suc (clock s))])"
      by (rule exI)
  next
    fix f s'
    assume "create d s = (Inr f, s')"
    then have "create_with new mk_file d s = (Inr f, s')" by (simp add: shape)
    then show "\<exists>doc. rows s' = rows s @ [doc] \<and> id_col doc = id_fld f \<and>
               blobs s' = blobs s @ [(storage_path doc, content d)] \<and>
               map_of (blobs s') (storage_path doc) = Some (content d) \<and>
               content f = content d"
      using key
    proof (cases rule: create_with_cases)
      case created
      let ?doc = "stamped (new d (hd (uuids s))) (Suc (clock s))"
      from created(6) have "map_of (blobs s) (storage_path (new d (hd (uuids s)))) = None"
        by (simp add: map_of_eq_None_iff)
      then have "map_of (blobs s') (storage_path ?doc) = Some (content d)"
        by (simp add: created(5) stamped_def map_add_def)
      with created mk show ?thesis
        by (intro exI [of _ ?doc]) (simp add: stamped_def)
    qed simp_all
  next
    fix x s'
    assume thrown: "create d s = (Inl x, s')"
    then have s': "snd (create d s) = s'" and x: "fst (create d s) = Inl x" by simp_all
    show "blobs s' = blobs s"
      using blobs1 res x unfolding s' by (cases a0; cases a1; cases a2) simp_all
    show "rows s' = rows s \<or>
             fault_at 3 s \<noteq> None \<and>
             rows s' = rows s @ [stamped (new d (hd (uuids s))) (Suc (clock s))]"
      using rows1 res x unfolding s' by (cases a0; cases a1; cases a2) (simp_all add: a3_def)
  qed
qed

lemma demo_create:
  "createDocument demo_input demo_backend =
     (Inr \<lparr>title = Some ''d2.md'', fileName = ''d2.md'', content = ''# two'', userId = ''ann'',
           isPublic = False, id_fld = ''d2'', createdAt = 6, updatedAt = 6\<rparr>,
      demo_backend\<lparr>
        rows := rows demo_backend @ [\<lparr>id_col = ''d2'', alias = None, file_name = ''d2.md'',
           user_id = ''ann'', is_public = False, storage_path = ''ann/d2.md'',
           created_at = 6, updated_at = 6\<rparr>],
        blobs := [(''ann/d1.md'', ''# one''), (''ann/d2.md'', ''# two'')],
        uuids := [], clock := 8,
        trace := [(RpcGenerateUuid, None),
                  (Insert \<lparr>id_col = ''d2'', alias = None, file_name = ''d2.md'', user_id = ''ann'',
                      is_public = False, storage_path = ''ann/d2.md''\<rparr>, None),
                  (StorageUpload ''ann/d2.md'' ''# two'', None)]\<rparr>)"
  by (simp add: run_defs)

lemma demo_new_row:
  "new_row demo_input ''d2'' =
     \<lparr>id_col = ''d2'', alias = None, file_name = ''d2.md'', user_id = ''ann'',
      is_public = False, storage_path = ''ann/d2.md''\<rparr>"
  by (simp add: new_row_def demo_input_def or_null_def)

lemma demo_create_upload_fails:
  "createDocument demo_input (demo_backend\<lparr>faults := [None, None, Some (Backend ''quota'')]\<rparr>) =
     (Inl (Backend ''quota''),
      demo_backend\<lparr>uuids := [], clock := 9, faults := [],
        trace := [(RpcGenerateUuid, None),
                  (Insert \<lparr>id_col = ''d2'', alias = None, file_name = ''d2.md'', user_id = ''ann'',
                      is_public = False, storage_path = ''ann/d2.md''\<rparr>, None),
                  (StorageUpload ''ann/d2.md'' ''# two'', Some (Backend ''quota'')),
                  (Delete ''d2'', None)]\<rparr>)"
  by (simp add: run_defs)

lemma demo_cleanup_refused:
  "createDocument demo_input
     (demo_backend\<lparr>faults := [None, None, Some (Backend ''quota''), Some (Backend ''db'')]\<rparr>) =
     (Inl (Backend ''quota''),
      demo_backend\<lparr>
        rows := rows demo_backend @ [\<lparr>id_col = ''d2'', alias = None, file_name = ''d2.md'',
           user_id = ''ann'', is_public = False, storage_path = ''ann/d2.md'',
           created_at = 6, updated_at = 6\<rparr>],
        uuids := [], clock := 9, faults := [],
        trace := [(RpcGenerateUuid, None),
                  (Insert \<lparr>id_col = ''d2'', alias = None, file_name = ''d2.md'', user_id = ''ann'',
                      is_public = False, storage_path = ''ann/d2.md''\<rparr>, None),
                  (StorageUpload ''ann/d2.md'' ''# two'', Some (Backend ''quota'')),
                  (Delete ''d2'', Some (Backend ''db''))]\<rparr>)"
  by (simp add: run_defs)

theorem C1_witness:
  "fault_at 0 (demo_backend\<lparr>faults := [None, None, Some (Backend ''quota'')]\<rparr>) = None \<and>
   fault_at 1 (demo_backend\<lparr>faults := [None, None, Some (Backend ''quota'')]\<rparr>) = None \<and>
   fault_at 2 (demo_backend\<lparr>faults := [None, None, Some (Backend ''quota'')]\<rparr>) =
     Some (Backend ''quota'') \<and>
   fst (createDocument demo_input (demo_backend\<lparr>faults := [None, None, Some (Backend ''quota'')]\<rparr>))
     = Inl (Backend ''quota'') \<and>
   rows (snd (createDocument demo_input
     (demo_backend\<lparr>faults := [None, None, Some (Backend ''quota'')]\<rparr>))) = rows demo_backend"
proof -
  let ?s = "demo_backend\<lparr>faults := [None, None, Some (Backend ''quota'')]\<rparr>"
  have pre: "fault_at 0 ?s = None \<and> uuids ?s = ''d2'' # [] \<and>
          fault_at 1 ?s = None \<and> ''d2'' \<notin> set (map id_col (rows ?s)) \<and>
          answer 2 ?s (if storage_path (new_row demo_input ''d2'') \<in> set (map fst (blobs ?s))
                      then Some (Backend ''Duplicate'') else None) = Some (Backend ''quota'')"
    by (simp add: fault_at_def answer_def demo_new_row demo_backend_def)
  have f2: "fault_at 2 ?s = Some (Backend ''quota'')" by (simp add: fault_at_def)
  from C1_upload_failure_compensated [OF disjI1 [OF refl], THEN conjunct1, THEN mp, OF pre]
  obtain s' where run: "createDocument demo_input ?s = (Inl (Backend ''quota''), s')"
    and rows': "rows s' = (if fault_at 3 ?s = None then rows ?s
       else rows ?s @ [stamped (new_row demo_input ''d2'') (Suc (clock ?s))])"
    by blast
  have f3: "fault_at 3 ?s = None" by (simp add: fault_at_def)
  from pre f2 run rows' f3 show ?thesis by simp
qed

text \<open>
  The claim as first stated has the inserted row deleted whenever the upload fails. On
  the sample backend, with the upload and then the clean-up \<^verbatim>\<open>delete\<close> refused, the upload's
  error is thrown and the row \<^verbatim>\<open>d2\<close> stays in the table.
\<close>

theorem C1_counterexample:
  "fst (createDocument demo_input
     (demo_backend\<lparr>faults := [None, None, Some (Backend ''quota''), Some (Backend ''db'')]\<rparr>)) =
     Inl (Backend ''quota'') \<and>
   rows (snd (createDocument demo_input
     (demo_backend\<lparr>faults := [None, None, Some (Backend ''quota''), Some (Backend ''db'')]\<rparr>))) =
     rows demo_backend @ [\<lparr>id_col = ''d2'', alias = None, file_name = ''d2.md'',
           user_id = ''ann'', is_public = False, storage_path = ''ann/d2.md'',
           created_at = 6, updated_at = 6\<rparr>] \<and>
   map fst (trace (snd (createDocument demo_input
     (demo_backend\<lparr>faults := [None, None, Some (Backend ''quota''), Some (Backend ''db'')]\<rparr>)))) =
     [RpcGenerateUuid,
      Insert \<lparr>id_col = ''d2'', alias = None, file_name = ''d2.md'', user_id = ''ann'',
              is_public = False, storage_path = ''ann/d2.md''\<rparr>,
      StorageUpload ''ann/d2.md'' ''# two'', Delete ''d2'']"
  by (simp add: demo_cleanup_refused)

text \<open>
  Claim C2, as amended. \<^verbatim>\<open>createDocument\<close> (either copy) makes its calls in this order and
  stops at the first one the backend answers with an error: \<^verbatim>\<open>generate_uuid\<close>, which hands
  out the id \<open>u\<close>; the insert of the row with that id, whose \<^verbatim>\<open>storage_path\<close> is
  \<^verbatim>\<open>{user_id}/{file_name}\<close> of that same row (the owner is the caller's, the file name is
  \<^verbatim>\<open>{id}.md\<close> in documents.ts and the caller's in the second copy); the upload of the
  content to that path. A
  refused upload is followed by the \<^verbatim>\<open>delete\<close> of the row, and by nothing else. A document
  is returned exactly when none of the three calls failed. The row is inserted before
  the blob is written, not after.
\<close>

theorem C2_create_order:
  assumes copy: "(create, new) = (createDocument, new_row) \<or> (create, new) = (createDocument2, new_row2)"
  shows "let u = hd (uuids s); ins = new d u; p = storage_path ins;
             a0 = answer 0 s (if uuids s = [] then Some (Backend ''generate_uuid'') else None);
             a1 = answer 1 s (if u \<in> set (map id_col (rows s)) then Some (Backend ''23505'')
                              else None);
             a2 = answer 2 s (if p \<in> set (map fst (blobs s)) then Some (Backend ''Duplicate'')
                              else None)
         in id_col ins = u \<and> user_id ins = userId d \<and>
            p = user_id ins @ ''/'' @ file_name ins \<and>
            (new = new_row \<longrightarrow> file_name ins = u @ ''.md'') \<and>
            (new = new_row2 \<longrightarrow> file_name ins = fileName d) \<and>
            (a0 = None \<longrightarrow> data (fst (rpc_generate_uuid s)) = Some u) \<and>
            ((\<exists>f. fst (create d s) = Inr f) \<longleftrightarrow> a0 = None \<and> a1 = None \<and> a2 = None) \<and>
            trace (snd (create d s)) = trace s @
              (if a0 \<noteq> None then [(RpcGenerateUuid, a0)]
               else if a1 \<noteq> None then [(RpcGenerateUuid, None), (Insert ins, a1)]
               else if a2 \<noteq> None
                 then [(RpcGenerateUuid, None), (Insert ins, None),
                       (StorageUpload p (content d), a2), (Delete u, fault_at 3 s)]
               else [(RpcGenerateUuid, None), (Insert ins, None),
                     (StorageUpload p (content d), None)])"
proof -
  from copy obtain mk_file where
    shape: "create = create_with new mk_file" and key: "\<And>d u. id_col (new d u) = u"
    by (auto simp: createDocument_shape createDocument2_shape new_row_id new_row2_id)
  from copy have path: "storage_path (new d u) = user_id (new d u) @ ''/'' @ file_name (new d u)"
    and owner: "user_id (new d u) = userId d" for u
    by (auto simp: new_row_def new_row2_def)
  have name1: "new = new_row \<longrightarrow> file_name (new d u) = u @ ''.md''"
    and name2: "new = new_row2 \<longrightarrow> file_name (new d u) = fileName d" for u
    by (auto simp: new_row_def new_row2_def)
  define a0 where "a0 = answer 0 s (if uuids s = [] then Some (Backend ''generate_uuid'') else None)"
  define a1 where "a1 = answer 1 s (if hd (uuids s) \<in> set (map id_col (rows s))
                                    then Some (Backend ''23505'') else None)"
  define a2 where "a2 = answer 2 s (if storage_path (new d (hd (uuids s))) \<in> set (map fst (blobs s))
                                    then Some (Backend ''Duplicate'') else None)"
  define a3 where "a3 = fault_at 3 s"
  note run = create_with_run [where mk_row = new and s = s and d = d and mk_file = mk_file,
      OF key refl refl refl a0_def a1_def a2_def a3_def, folded shape]
  note res = run [THEN conjunct1] and tr = run [THEN conjunct2, THEN conjunct1]
  obtain r0 s1 where c0: "rpc_generate_uuid s = (r0, s1)" by force
  from rpc_generate_uuid_err [OF c0] have "error r0 = a0" by (simp add: a0_def natural_at0)
  with rpc_generate_uuid_eq [OF c0] c0
  have given: "a0 = None \<longrightarrow> data (fst (rpc_generate_uuid s)) = Some (hd (uuids s))"
    by simp
  have returned: "(\<exists>f. fst (create d s) = Inr f) \<longleftrightarrow> a0 = None \<and> a1 = None \<and> a2 = None"
    unfolding res by (cases a0; cases a1; cases a2) simp_all
  have calls: "trace (snd (create d s)) = trace s @
              (if a0 \<noteq> None then [(RpcGenerateUuid, a0)]
               else if a1 \<noteq> None then [(RpcGenerateUuid, None), (Insert (new d (hd (uuids s))), a1)]
               else if a2 \<noteq> None
                 then [(RpcGenerateUuid, None), (Insert (new d (hd (uuids s))), None),
                       (StorageUpload (storage_path (new d (hd (uuids s)))) (content d), a2),
                       (Delete (hd (uuids s)), fault_at 3 s)]
               else [(RpcGenerateUuid, None), (Insert (new d (hd (uuids s))), None),
                     (StorageUpload (storage_path (new d (hd (uuids s)))) (content d), None)])"
    unfolding tr by (cases a0; cases a1; cases a2) (simp_all add: a3_def)
  from key [of d "hd (uuids s)"] owner [of "hd (uuids s)"] path [of "hd (uuids s)"]
    name1 [of "hd (uuids s)"] name2 [of "hd (uuids s)"] given returned calls
  show ?thesis
    unfolding Let_def a0_def a1_def a2_def by (intro conjI)
qed

theorem C2_witness:
  "trace (snd (createDocument demo_input demo_backend)) =
     [(RpcGenerateUuid, None),
      (Insert \<lparr>id_col = ''d2'', alias = None, file_name = ''d2.md'', user_id = ''ann'',
          is_public = False, storage_path = ''ann/d2.md''\<rparr>, None),
      (StorageUpload ''ann/d2.md'' ''# two'', None)]"
proof -
  note th = C2_create_order [OF disjI1 [OF refl], where s = demo_backend and d = demo_input,
      unfolded Let_def]
  note calls = th [THEN conjunct2, THEN conjunct2, THEN conjunct2, THEN conjunct2, THEN conjunct2,
      THEN conjunct2, THEN conjunct2]
  from calls show ?thesis
    by (simp add: demo_backend_def fault_at_def answer_def demo_input_def new_row_def or_null_def)
qed

text \<open>
  The claim as first stated has the blob written before the row is inserted. On the
  sample backend the calls are: id, insert, upload.
\<close>

theorem C2_counterexample:
  "map fst (trace (snd (createDocument demo_input demo_backend))) =
     [RpcGenerateUuid,
      Insert \<lparr>id_col = ''d2'', alias = None, file_name = ''d2.md'', user_id = ''ann'',
              is_public = False, storage_path = ''ann/d2.md''\<rparr>,
      StorageUpload ''ann/d2.md'' ''# two''] \<and>
   map fst (trace (snd (createDocument demo_input demo_backend))) \<noteq>
     [RpcGenerateUuid,
      StorageUpload ''ann/d2.md'' ''# two'',
      Insert \<lparr>id_col = ''d2'', alias = None, file_name = ''d2.md'', user_id = ''ann'',
              is_public = False, storage_path = ''ann/d2.md''\<rparr>]"
  by (simp add: demo_create)

section \<open>Reading a document\<close>

lemma getDocument_shape: "getDocument = get_with Inl as_file"
  by (intro ext) (simp add: getDocument_def get_with_def)

lemma getDocument2_shape: "getDocument2 = get_with (\<lambda>e. Inr None) as_file2"
  by (intro ext) (simp add: getDocument2_def get_with_def)

lemma get_with_cases [consumes 1, case_names lookup_failed download_failed found]:
  assumes "get_with on_error mk_file i s = (res, s')"
  obtains
    e where "res = on_error e" "trace s' = trace s @ [(SelectSingle i, Some e)]"
      "rows s' = rows s" "blobs s' = blobs s"
  | doc e where "filter (\<lambda>r. id_col r = i) (rows s) = [doc]" "res = on_error e"
      "trace s' = trace s @ [(SelectSingle i, None), (StorageDownload (storage_path doc), Some e)]"
      "rows s' = rows s" "blobs s' = blobs s"
  | doc x where "filter (\<lambda>r. id_col r = i) (rows s) = [doc]" "res = Inr (Some (mk_file doc x))"
      "trace s' = trace s @ [(SelectSingle i, None), (StorageDownload (storage_path doc), None)]"
      "rows s' = rows s" "blobs s' = blobs s" "map_of (blobs s) (storage_path doc) = Some x"
proof -
  obtain r0 s1 where c0: "db_select_single i s = (r0, s1)" by force
  note f0 = db_select_single_eq [OF c0, unfolded answered_def]
  show thesis
  proof (cases "error r0")
    case (Some e)
    with f0 assms c0 show thesis
      by (intro that(1) [of e]) (auto simp: get_with_def)
  next
    case None
    with f0 obtain doc where doc: "data r0 = Some doc" "filter (\<lambda>r. id_col r = i) (rows s) = [doc]"
      by (auto split: option.splits)
    obtain c s2 where c1: "getFileContent (storage_path doc) s1 = (c, s2)" by force
    note f1 = getFileContent_eq [OF c1, unfolded answered_def]
    show thesis
    proof (cases c)
      case (Inl e)
      with None doc f0 f1 assms c0 c1 show thesis
        by (intro that(2) [of doc e]) (auto simp: get_with_def)
    next
      case (Inr x)
      with None doc f0 f1 assms c0 c1 show thesis
        by (intro that(3) [of doc x]) (auto simp: get_with_def)
    qed
  qed
qed

lemma faithful_next: "faithful (Suc n) s \<Longrightarrow> next_fault s = None"
  by (cases "faults s") (auto simp: faithful_def next_fault_def)

lemma faithful_tl: "faithful (Suc n) s \<Longrightarrow> faults s' = tl (faults s) \<Longrightarrow> faithful n s'"
  by (cases "faults s") (auto simp: faithful_def)

lemma natural_faithful: "faithful (Suc n) s \<Longrightarrow> natural s e = e"
  by (simp add: natural_def faithful_next)

lemma get_with_reads_back:
  assumes ok: "faithful 2 s"
    and row: "filter (\<lambda>r. id_col r = i) (rows s) = [doc]"
    and blob: "map_of (blobs s) (storage_path doc) = Some x"
  shows "\<exists>s'. get_with on_error mk_file i s = (Inr (Some (mk_file doc x)), s')"
proof -
  from ok have ok1: "faithful (Suc 1) s" by (simp add: numeral_2_eq_2)
  obtain r0 s1 where c0: "db_select_single i s = (r0, s1)" by force
  note f0 = db_select_single_eq [OF c0, unfolded answered_def]
  from db_select_single_err [OF c0] row ok1 have e0: "error r0 = None"
    by (simp add: natural_faithful)
  with f0 row have d0: "data r0 = Some doc" by (auto split: option.splits)
  from f0 ok1 have ok2: "faithful (Suc 0) s1" by (auto intro: faithful_tl)
  obtain c s2 where c1: "getFileContent (storage_path doc) s1 = (c, s2)" by force
  from getFileContent_err [OF c1] blob f0 ok2 have "c = Inr x \<or> (\<exists>y. c = Inr y)"
    by (auto simp: natural_faithful split: sum.splits)
  with getFileContent_eq [OF c1] blob f0 have "c = Inr x" by auto
  with c0 c1 e0 d0 show ?thesis by (simp add: get_with_def)
qed

text \<open>
  Creation does return a document when the backend carries out its three calls, the id
  handed out is new and the path is free; so the premise of the next theorem can be met
  from any such backend.
\<close>

lemma create_with_succeeds:
  assumes ok: "faithful 3 s"
    and key: "\<And>d u. id_col (mk_row d u) = u"
    and ids: "uuids s \<noteq> []" "hd (uuids s) \<notin> set (map id_col (rows s))"
    and free: "storage_path (mk_row d (hd (uuids s))) \<notin> set (map fst (blobs s))"
  shows "\<exists>f s'. create_with mk_row mk_file d s = (Inr f, s')"
proof -
  let ?ins = "mk_row d (hd (uuids s))"
  from ok have ok0: "faithful (Suc 2) s" by (simp add: numeral_3_eq_3)
  obtain r0 s1 where c0: "rpc_generate_uuid s = (r0, s1)" by force
  note f0 = rpc_generate_uuid_eq [OF c0, unfolded answered_def]
  from rpc_generate_uuid_err [OF c0] ids ok0 have e0: "error r0 = None"
    by (simp add: natural_faithful)
  from f0 ok0 have ok1: "faithful (Suc 1) s1" by (auto intro: faithful_tl simp: numeral_2_eq_2)
  obtain r1 s2 where c1: "db_insert ?ins s1 = (r1, s2)" by force
  note f1 = db_insert_eq [OF c1, unfolded answered_def]
  from db_insert_err [OF c1] ids f0 ok1 key have e1: "error r1 = None"
    by (simp add: natural_faithful)
  from f1 ok1 have ok2: "faithful (Suc 0) s2" by (auto intro: faithful_tl)
  obtain r2 s3 where c2: "storage_upload (storage_path ?ins) (content d) s2 = (r2, s3)" by force
  from storage_upload_err [OF c2] free f0 f1 ok2 have e2: "error r2 = None"
    by (simp add: natural_faithful)
  from c0 c1 c2 e0 e1 e2 f0 f1 show ?thesis by (simp add: create_with_def)
qed

lemma createDocument_succeeds:
  assumes "faithful 3 s" "uuids s = u # us" "u \<notin> set (map id_col (rows s))"
    and "userId d @ ''/'' @ u @ ''.md'' \<notin> set (map fst (blobs s))"
  shows "\<exists>f s'. createDocument d s = (Inr f, s')"
  unfolding createDocument_shape
  by (rule create_with_succeeds) (use assms in \<open>simp_all add: new_row_def\<close>)

text \<open>
  Claim C3. When \<^verbatim>\<open>createDocument\<close> has returned a document and the backend carries out the
  two calls of the read that follows, \<^verbatim>\<open>getDocument\<close> on the returned id gives a document
  with the content that was supplied; it is in fact the very document that
  \<^verbatim>\<open>createDocument\<close> returned. This holds for each copy of the module.
\<close>

theorem C3_create_then_read:
  assumes copy: "(create, get) = (createDocument, getDocument) \<or>
                 (create, get) = (createDocument2, getDocument2)"
    and created: "create d s = (Inr f, s1)"
    and ok: "faithful 2 s1"
  shows "\<exists>g s2. get (id_fld f) s1 = (Inr (Some g), s2) \<and> content g = content d \<and> g = f"
proof -
  from copy created obtain mk_row mk_file on_error where
    run: "create_with mk_row mk_file d s = (Inr f, s1)" and key: "\<And>d u. id_col (mk_row d u) = u"
    and get: "get = get_with on_error mk_file"
    and mk: "\<And>doc c. id_fld (mk_file doc c) = id_col doc \<and> content (mk_file doc c) = c"
    by (auto simp: createDocument_shape createDocument2_shape getDocument_shape getDocument2_shape
        new_row_id new_row2_id as_file_def as_file2_def)
  let ?doc = "stamped (mk_row d (hd (uuids s))) (Suc (clock s))"
  let ?p = "storage_path (mk_row d (hd (uuids s)))"
  from run key have f: "f = mk_file ?doc (content d)"
    and rows1: "rows s1 = rows s @ [?doc]" and fresh: "hd (uuids s) \<notin> set (map id_col (rows s))"
    and blobs1: "blobs s1 = blobs s @ [(?p, content d)]" and free: "?p \<notin> set (map fst (blobs s))"
    by (cases rule: create_with_cases; simp)+
  have i: "id_col ?doc = hd (uuids s)" and p: "storage_path ?doc = ?p"
    by (simp_all add: stamped_def key)
  from fresh have row: "filter (\<lambda>r. id_col r = hd (uuids s)) (rows s1) = [?doc]"
    by (simp add: rows1 filter_absent_id i)
  from free have "map_of (blobs s) ?p = None" by (simp add: map_of_eq_None_iff)
  then have blob: "map_of (blobs s1) (storage_path ?doc) = Some (content d)"
    by (simp add: blobs1 p map_add_def)
  from get_with_reads_back [OF ok row blob, of on_error mk_file] f mk i get
  show ?thesis by auto
qed

theorem C3_witness:
  "fst (getDocument ''d2'' (snd (createDocument demo_input demo_backend))) =
     Inr (Some \<lparr>title = Some ''d2.md'', fileName = ''d2.md'', content = ''# two'', userId = ''ann'',
           isPublic = False, id_fld = ''d2'', createdAt = 6, updatedAt = 6\<rparr>)"
proof -
  let ?s1 = "demo_backend\<lparr>
        rows := rows demo_backend @ [\<lparr>id_col = ''d2'', alias = None, file_name = ''d2.md'',
           user_id = ''ann'', is_public = False, storage_path = ''ann/d2.md'',
           created_at = 6, updated_at = 6\<rparr>],
        blobs := [(''ann/d1.md'', ''# one''), (''ann/d2.md'', ''# two'')],
        uuids := [], clock := 8,
        trace := [(RpcGenerateUuid, None),
                  (Insert \<lparr>id_col = ''d2'', alias = None, file_name = ''d2.md'', user_id = ''ann'',
                      is_public = False, storage_path = ''ann/d2.md''\<rparr>, None),
                  (StorageUpload ''ann/d2.md'' ''# two'', None)]\<rparr>"
  have ok: "faithful 2 ?s1" by (simp add: faithful_def demo_backend_def)
  from C3_create_then_read [OF disjI1 [OF refl] demo_create ok]
  show ?thesis by (auto simp: demo_create)
qed

section \<open>Updating a document\<close>

lemma map_of_overwrite_same:
  "p \<in> set (map fst bs) \<Longrightarrow> map_of (overwrite p c bs) p = Some c"
  by (induction bs) (auto simp: overwrite_def)

lemma map_of_overwrite_other:
  "q \<noteq> p \<Longrightarrow> map_of (overwrite p c bs) q = map_of bs q"
  by (induction bs) (auto simp: overwrite_def)

lemma keys_overwrite: "map fst (overwrite p c bs) = map fst bs"
  by (induction bs) (auto simp: overwrite_def)

lemma update_with_run:
  assumes c: "content_upd u = Some c"
    and found: "fault_at 0 s = None" "filter (\<lambda>r. id_col r = i) (rows s) = [cur]"
    and p: "p = storage_path cur" and k: "k = Suc (Suc (clock s))" and dbu: "dbu = mk u k"
    and a1: "a1 = answer 1 s (if p \<in> set (map fst (blobs s)) then None
                              else Some (Backend ''NotFound''))"
    and a2: "a2 = fault_at 2 s" and a3: "a3 = fault_at 3 s"
  shows "fst (update_with mk mf i u s) =
      (case a1 of
         Some e \<Rightarrow> Inl e
       | None \<Rightarrow>
           (case a2 of
              Some e \<Rightarrow> Inl e
            | None \<Rightarrow>
                if c \<noteq> [] then Inr (mf (apply_updates dbu k cur) c)
                else (case a3 of
                        Some e \<Rightarrow> Inl e
                      | None \<Rightarrow> Inr (mf (apply_updates dbu k cur) [])))) \<and>
     trace (snd (update_with mk mf i u s)) = trace s @
      (case a1 of
         Some e \<Rightarrow> [(SelectSingle i, None), (StorageUpdate p c, a1)]
       | None \<Rightarrow>
           (case a2 of
              Some e \<Rightarrow> [(SelectSingle i, None), (StorageUpdate p c, None), (Update i dbu, a2)]
            | None \<Rightarrow> [(SelectSingle i, None), (StorageUpdate p c, None), (Update i dbu, None)] @
                        (if c = [] then [(StorageDownload p, a3)] else []))) \<and>
     rows (snd (update_with mk mf i u s)) =
       (if a1 = None \<and> a2 = None
        then map (\<lambda>r. if id_col r = i then apply_updates dbu k r else r) (rows s)
        else rows s) \<and>
     blobs (snd (update_with mk mf i u s)) =
       (if a1 = None then overwrite p c (blobs s) else blobs s) \<and>
     (a1 = None \<longrightarrow> map_of (overwrite p c (blobs s)) p = Some c)"
proof -
  obtain r0 s1 where c0: "db_select_single i s = (r0, s1)" by force
  note f0 = db_select_single_eq [OF c0, unfolded answered_def]
  from db_select_single_err [OF c0] found have e0: "error r0 = None"
    by (simp add: natural_at0 answer_def)
  with f0 found have dat0: "data r0 = Some cur" by (auto split: option.splits)
  from f0 have "faults s1 = tl (faults s)" by simp
  then have d1: "faults s1 = drop (Suc 0) (faults s)" by (rule faults_step0)
  obtain r1 s2 where c1: "storage_update p c s1 = (r1, s2)" by force
  note f1 = storage_update_eq [OF c1, unfolded answered_def]
  from storage_update_err [OF c1] f0 have e1: "error r1 = a1"
    by (simp add: a1 natural_at [OF d1, simplified])
  from f1 have "faults s2 = tl (faults s1)" by simp
  from faults_step [OF this d1] have d2: "faults s2 = drop 2 (faults s)"
    by (simp only: numeral_2_eq_2)
  from f0 f1 have k2: "clock s2 = k" and rows2: "rows s2 = rows s" by (simp_all add: k)
  have first: "update_with mk mf i u s =
      (case error r1 of
         Some e \<Rightarrow> (Inl e, s2)
       | None \<Rightarrow>
           (let (r2, s3) = db_update i dbu s2 in
            case error r2 of
              Some dbError \<Rightarrow> (Inl dbError, s3)
            | None \<Rightarrow>
                (case data r2 of
                   None \<Rightarrow> (Inl TypeError, s3)
                 | Some doc \<Rightarrow>
                     (case or_null (content_upd u) of
                        Some c \<Rightarrow> (Inr (mf doc c), s3)
                      | None \<Rightarrow>
                          (let (c, s4) = getFileContent (storage_path doc) s3 in
                           case c of
                             Inl e \<Rightarrow> (Inl e, s4)
                           | Inr x \<Rightarrow> (Inr (mf doc x), s4))))))"
    using c0 c1 dat0 c k2
    by (simp add: update_with_def p [symmetric] dbu split: option.splits)
  show ?thesis
  proof (cases a1)
    case (Some e)
    with first e1 f0 f1 e0 show ?thesis by simp
  next
    case n1: None
    with e1 f1 f0 have here: "p \<in> set (map fst (blobs s))" by simp
    then have over: "map_of (overwrite p c (blobs s)) p = Some c"
      by (rule map_of_overwrite_same)
    from n1 e1 f1 f0 have blobs2: "blobs s2 = overwrite p c (blobs s)" by simp
    obtain r2 s3 where c2: "db_update i dbu s2 = (r2, s3)" by force
    note f2 = db_update_eq [OF c2, unfolded answered_def rows2 k2]
    from db_update_err [OF c2] found have e2: "error r2 = a2"
      by (simp add: rows2 a2 natural_at [OF d2] answer_def split: option.splits)
    from f2 have "faults s3 = tl (faults s2)" by simp
    from faults_step [OF this d2] have d3: "faults s3 = drop 3 (faults s)"
      by (simp only: numeral_3_eq_3 numeral_2_eq_2)
    show ?thesis
    proof (cases a2)
      case (Some e)
      with n1 first e1 e2 f0 f1 f2 e0 c2 blobs2 over show ?thesis by simp
    next
      case n2: None
      with e2 f2 found have dat2: "data r2 = Some (apply_updates dbu k cur)"
        by (auto split: option.splits)
      have sp: "storage_path (apply_updates dbu k cur) = p"
        by (simp add: apply_updates_def p)
      show ?thesis
      proof (cases "c = []")
        case False
        with c have "or_null (content_upd u) = Some c" by (simp add: or_null_def)
        with n1 n2 first e1 e2 f0 f1 f2 e0 c2 blobs2 dat2 False over show ?thesis by simp
      next
        case True
        with c have no: "or_null (content_upd u) = None" by (simp add: or_null_def)
        obtain x s4 where c3: "getFileContent p s3 = (x, s4)" by force
        note f3 = getFileContent_eq [OF c3, unfolded answered_def]
        from over f2 blobs2 have m3: "map_of (blobs s3) p = Some c" by simp
        with getFileContent_err [OF c3] have e3: "(case x of Inl e \<Rightarrow> Some e | Inr y \<Rightarrow> None) = a3"
          by (simp add: a3 natural_at [OF d3] answer_def split: option.splits)
        show ?thesis
        proof (cases x)
          case (Inl e)
          with e3 have "a3 = Some e" by simp
          with Inl True no n1 n2 first e1 e2 f0 f1 f2 f3 e0 c2 c3 blobs2 dat2 sp over show ?thesis
            by simp
        next
          case (Inr y)
          with e3 have "a3 = None" by simp
          moreover from Inr f3 m3 have "y = c" by simp
          ultimately show ?thesis
            using Inr True no n1 n2 first e1 e2 f0 f1 f2 f3 e0 c2 c3 blobs2 dat2 sp over by simp
        qed
      qed
    qed
  qed
qed

text \<open>
  Claim C4. Take a run of \<^verbatim>\<open>updateDocument\<close> (either copy) whose updates carry a content
  \<open>c\<close> and whose look-up finds the row \<open>cur\<close>. Its calls are, in this order and stopping
  at the first that the backend answers with an error: the look-up, the write of \<open>c\<close> to
  the blob at \<open>storage_path cur\<close>, the update of the row (and, for an empty \<open>c\<close>, a
  download of the blob). When the blob write fails, its error is thrown, no row update
  is sent, and table and bucket are unchanged. When the blob write succeeds, the blob
  holds \<open>c\<close> from then on, whatever follows: when the row update fails, its error is
  thrown, nothing is sent after it, and the table is unchanged; when it succeeds, the row
  is updated and the document is returned.
\<close>

theorem C4_update_blob_then_row:
  assumes copy: "(update, sent, mkfile) = (updateDocument, sent_updates, as_file) \<or>
                 (update, sent, mkfile) = (updateDocument2, sent_updates2, as_file2)"
    and c: "content_upd u = Some c"
    and found: "fault_at 0 s = None" "filter (\<lambda>r. id_col r = i) (rows s) = [cur]"
  shows "let p = storage_path cur; k = Suc (Suc (clock s)); dbu = sent u k;
             a1 = answer 1 s (if p \<in> set (map fst (blobs s)) then None
                              else Some (Backend ''NotFound''));
             a2 = fault_at 2 s; a3 = fault_at 3 s
         in trace (snd (update i u s)) = trace s @
              (if a1 \<noteq> None then [(SelectSingle i, None), (StorageUpdate p c, a1)]
               else if a2 \<noteq> None
                 then [(SelectSingle i, None), (StorageUpdate p c, None), (Update i dbu, a2)]
               else [(SelectSingle i, None), (StorageUpdate p c, None), (Update i dbu, None)] @
                    (if c = [] then [(StorageDownload p, a3)] else [])) \<and>
            (\<forall>e. a1 = Some e \<longrightarrow>
               fst (update i u s) = Inl e \<and> rows (snd (update i u s)) = rows s \<and>
               blobs (snd (update i u s)) = blobs s) \<and>
            (a1 = None \<longrightarrow>
               blobs (snd (update i u s)) = overwrite p c (blobs s) \<and>
               map_of (blobs (snd (update i u s))) p = Some c) \<and>
            (\<forall>e. a1 = None \<and> a2 = Some e \<longrightarrow>
               fst (update i u s) = Inl e \<and> rows (snd (update i u s)) = rows s) \<and>
            (a1 = None \<and> a2 = None \<longrightarrow>
               rows (snd (update i u s)) =
                 map (\<lambda>r. if id_col r = i then apply_updates dbu k r else r) (rows s) \<and>
               fst (update i u s) =
                 (if c \<noteq> [] then Inr (mkfile (apply_updates dbu k cur) c)
                  else case a3 of Some e \<Rightarrow> Inl e
                       | None \<Rightarrow> Inr (mkfile (apply_updates dbu k cur) [])))"
proof -
  from copy have shape: "update = update_with sent mkfile"
    by (auto simp: updateDocument_shape updateDocument2_shape)
  define a1 where "a1 = answer 1 s (if storage_path cur \<in> set (map fst (blobs s)) then None
                              else Some (Backend ''NotFound''))"
  define a2 where "a2 = fault_at 2 s"
  define a3 where "a3 = fault_at 3 s"
  note run = update_with_run [where mk = sent and mf = mkfile, OF c found refl refl refl
      a1_def a2_def a3_def, folded shape]
  note res = run [THEN conjunct1] and tr = run [THEN conjunct2, THEN conjunct1]
    and rows1 = run [THEN conjunct2, THEN conjunct2, THEN conjunct1]
    and blobs1 = run [THEN conjunct2, THEN conjunct2, THEN conjunct2, THEN conjunct1]
    and over = run [THEN conjunct2, THEN conjunct2, THEN conjunct2, THEN conjunct2]
  let ?p = "storage_path cur" and ?k = "Suc (Suc (clock s))"
  let ?dbu = "sent u ?k"
  have calls: "trace (snd (update i u s)) = trace s @
              (if a1 \<noteq> None then [(SelectSingle i, None), (StorageUpdate ?p c, a1)]
               else if a2 \<noteq> None
                 then [(SelectSingle i, None), (StorageUpdate ?p c, None), (Update i ?dbu, a2)]
               else [(SelectSingle i, None), (StorageUpdate ?p c, None), (Update i ?dbu, None)] @
                    (if c = [] then [(StorageDownload ?p, a3)] else []))"
    unfolding tr by (cases a1; cases a2) simp_all
  have blob_failed: "\<forall>e. a1 = Some e \<longrightarrow>
               fst (update i u s) = Inl e \<and> rows (snd (update i u s)) = rows s \<and>
               blobs (snd (update i u s)) = blobs s"
    unfolding res rows1 blobs1 by simp
  have written: "a1 = None \<longrightarrow>
               blobs (snd (update i u s)) = overwrite ?p c (blobs s) \<and>
               map_of (blobs (snd (update i u s))) ?p = Some c"
    using over unfolding blobs1 by simp
  have row_failed: "\<forall>e. a1 = None \<and> a2 = Some e \<longrightarrow>
               fst (update i u s) = Inl e \<and> rows (snd (update i u s)) = rows s"
    unfolding res rows1 by simp
  have updated: "a1 = None \<and> a2 = None \<longrightarrow>
               rows (snd (update i u s)) =
                 map (\<lambda>r. if id_col r = i then apply_updates ?dbu ?k r else r) (rows s) \<and>
               fst (update i u s) =
                 (if c \<noteq> [] then Inr (mkfile (apply_updates ?dbu ?k cur) c)
                  else case a3 of Some e \<Rightarrow> Inl e
                       | None \<Rightarrow> Inr (mkfile (apply_updates ?dbu ?k cur) []))"
    unfolding res rows1 by simp
  from calls blob_failed written row_failed updated show ?thesis
    unfolding Let_def a1_def a2_def a3_def by (intro conjI)
qed

lemma demo_row:
  "filter (\<lambda>r. id_col r = ''d1'') (rows (demo_backend\<lparr>faults := fs\<rparr>)) =
     [\<lparr>id_col = ''d1'', alias = None, file_name = ''d1.md'', user_id = ''ann'',
       is_public = False, storage_path = ''ann/d1.md'', created_at = 1, updated_at = 1\<rparr>]"
  by (simp add: demo_backend_def)

theorem C4_witness:
  "fst (updateDocument ''d1'' demo_updates
         (demo_backend\<lparr>faults := [None, None, Some (Backend ''db'')]\<rparr>)) = Inl (Backend ''db'') \<and>
   map_of (blobs (snd (updateDocument ''d1'' demo_updates
         (demo_backend\<lparr>faults := [None, None, Some (Backend ''db'')]\<rparr>)))) ''ann/d1.md'' = Some ''# new'' \<and>
   rows (snd (updateDocument ''d1'' demo_updates
         (demo_backend\<lparr>faults := [None, None, Some (Backend ''db'')]\<rparr>))) = rows demo_backend"
proof -
  let ?s = "demo_backend\<lparr>faults := [None, None, Some (Backend ''db'')]\<rparr>"
  have c: "content_upd demo_updates = Some ''# new''" by (simp add: demo_updates_def)
  have f0: "fault_at 0 ?s = None" by (simp add: fault_at_def)
  note th = C4_update_blob_then_row [OF disjI1 [OF refl] c f0 demo_row, unfolded Let_def]
  note written = th [THEN conjunct2, THEN conjunct2, THEN conjunct1]
    and row_failed = th [THEN conjunct2, THEN conjunct2, THEN conjunct2, THEN conjunct1,
      THEN spec, where x = "Backend ''db''"]
  have a1: "answer 1 ?s (if ''ann/d1.md'' \<in> set (map fst (blobs ?s)) then None
                              else Some (Backend ''NotFound'')) = None"
    and a2: "fault_at 2 ?s = Some (Backend ''db'')"
    by (simp_all add: fault_at_def answer_def demo_backend_def)
  from written a1 have w: "map_of (blobs (snd (updateDocument ''d1'' demo_updates ?s))) ''ann/d1.md'' =
      Some ''# new''"
    by (simp add: overwrite_def demo_backend_def)
  from row_failed a1 a2 have r: "fst (updateDocument ''d1'' demo_updates ?s) = Inl (Backend ''db'') \<and>
      rows (snd (updateDocument ''d1'' demo_updates ?s)) = rows ?s"
    by simp
  from w r show ?thesis by simp
qed

section \<open>Deleting a document\<close>

text \<open>
  Claim C5. A run of \<^verbatim>\<open>deleteDocument\<close> either finds no row (one failed look-up,
  \<^verbatim>\<open>Document not found\<close>), or reads the row \<open>doc\<close> and then makes its calls in the order:
  look-up, removal of the blob at \<open>storage_path doc\<close>, deletion of the row, stopping at
  the first that fails. When it succeeds all three were made, and neither a row with the
  id nor a blob at the path is left. When the deletion of the row fails, its error is
  thrown, it is the last call, the blob is gone and the row is still in the table.
\<close>

theorem C5_delete_order:
  assumes run: "deleteDocument i s = (res, s')"
    and tr: "trace s' = trace s @ t"
  shows "(\<exists>e. t = [(SelectSingle i, Some e)] \<and> res = Inl DocumentNotFound) \<or>
     (\<exists>doc. filter (\<lambda>r. id_col r = i) (rows s) = [doc] \<and>
        hd t = (SelectSingle i, None) \<and>
        prefix (map fst t) [SelectSingle i, StorageRemove (storage_path doc), Delete i] \<and>
        (res = Inr () \<longrightarrow>
           t = [(SelectSingle i, None), (StorageRemove (storage_path doc), None), (Delete i, None)] \<and>
           rows s' = filter (\<lambda>r. id_col r \<noteq> i) (rows s) \<and>
           blobs s' = filter (\<lambda>(q, d). q \<noteq> storage_path doc) (blobs s) \<and>
           i \<notin> set (map id_col (rows s')) \<and>
           storage_path doc \<notin> set (map fst (blobs s'))) \<and>
        (\<forall>e. (Delete i, Some e) \<in> set t \<longrightarrow>
           res = Inl e \<and> last t = (Delete i, Some e) \<and>
           (StorageRemove (storage_path doc), None) \<in> set t \<and>
           rows s' = rows s \<and> doc \<in> set (rows s') \<and>
           blobs s' = filter (\<lambda>(q, d). q \<noteq> storage_path doc) (blobs s) \<and>
           storage_path doc \<notin> set (map fst (blobs s'))))"
  using run
proof (cases rule: deleteDocument_cases)
  case (not_found e)
  with tr show ?thesis by auto
next
  case (remove_failed doc e)
  with tr show ?thesis by auto
next
  case (delete_failed doc e)
  from delete_failed(1) have "doc \<in> set (filter (\<lambda>r. id_col r = i) (rows s))" by simp
  then have "doc \<in> set (rows s)" by simp
  with delete_failed tr show ?thesis by auto
next
  case (deleted doc)
  with tr show ?thesis by auto
qed

lemma demo_delete:
  "deleteDocument ''d1'' demo_backend =
     (Inr (), demo_backend\<lparr>rows := [], blobs := [], clock := 8,
        trace := [(SelectSingle ''d1'', None), (StorageRemove ''ann/d1.md'', None),
                  (Delete ''d1'', None)]\<rparr>)"
  by (simp add: run_defs)

lemma demo_delete_row_fails:
  "deleteDocument ''d1'' (demo_backend\<lparr>faults := [None, None, Some (Backend ''db'')]\<rparr>) =
     (Inl (Backend ''db''), demo_backend\<lparr>blobs := [], clock := 8, faults := [],
        trace := [(SelectSingle ''d1'', None), (StorageRemove ''ann/d1.md'', None),
                  (Delete ''d1'', Some (Backend ''db''))]\<rparr>)"
  by (simp add: run_defs)

theorem C5_witness:
  "fst (deleteDocument ''d1'' demo_backend) = Inr () \<and>
   rows (snd (deleteDocument ''d1'' demo_backend)) = [] \<and>
   blobs (snd (deleteDocument ''d1'' demo_backend)) = [] \<and>
   fst (deleteDocument ''d1'' (demo_backend\<lparr>faults := [None, None, Some (Backend ''db'')]\<rparr>)) =
     Inl (Backend ''db'') \<and>
   rows (snd (deleteDocument ''d1'' (demo_backend\<lparr>faults := [None, None, Some (Backend ''db'')]\<rparr>))) =
     rows demo_backend \<and>
   blobs (snd (deleteDocument ''d1'' (demo_backend\<lparr>faults := [None, None, Some (Backend ''db'')]\<rparr>))) = []"
  using C5_delete_order [OF demo_delete,
      of "[(SelectSingle ''d1'', None), (StorageRemove ''ann/d1.md'', None), (Delete ''d1'', None)]"]
    C5_delete_order [OF demo_delete_row_fails,
      of "[(SelectSingle ''d1'', None), (StorageRemove ''ann/d1.md'', None),
           (Delete ''d1'', Some (Backend ''db''))]"]
  by (simp add: demo_delete demo_delete_row_fails)

section \<open>Operations on an id with no row\<close>

text \<open>
  Claim C8. For an id that no row of the table has, \<^verbatim>\<open>updateDocument\<close> (either copy) and
  \<^verbatim>\<open>deleteDocument\<close> throw \<^verbatim>\<open>Document not found\<close>; the only call made is the look-up of
  the row, which is answered with an error, and table and bucket are unchanged.
\<close>

theorem C8_missing_row_not_found:
  assumes "i \<notin> set (map id_col (rows s))"
  shows "(\<exists>s' e. updateDocument i u s = (Inl DocumentNotFound, s') \<and> rows s' = rows s \<and>
            blobs s' = blobs s \<and> trace s' = trace s @ [(SelectSingle i, Some e)]) \<and>
         (\<exists>s' e. updateDocument2 i u s = (Inl DocumentNotFound, s') \<and> rows s' = rows s \<and>
            blobs s' = blobs s \<and> trace s' = trace s @ [(SelectSingle i, Some e)]) \<and>
         (\<exists>s' e. deleteDocument i s = (Inl DocumentNotFound, s') \<and> rows s' = rows s \<and>
            blobs s' = blobs s \<and> trace s' = trace s @ [(SelectSingle i, Some e)])"
proof -
  note none = filter_absent_id [OF assms]
  have upd: "\<exists>s' e. update_with mk mf i u s = (Inl DocumentNotFound, s') \<and> rows s' = rows s \<and>
            blobs s' = blobs s \<and> trace s' = trace s @ [(SelectSingle i, Some e)]" for mk mf
  proof -
    obtain res s' where run: "update_with mk mf i u s = (res, s')" by force
    then show ?thesis by (cases rule: update_with_cases) (use none run in auto)
  qed
  have del: "\<exists>s' e. deleteDocument i s = (Inl DocumentNotFound, s') \<and> rows s' = rows s \<and>
            blobs s' = blobs s \<and> trace s' = trace s @ [(SelectSingle i, Some e)]"
  proof -
    obtain res s' where run: "deleteDocument i s = (res, s')" by force
    then show ?thesis by (cases rule: deleteDocument_cases) (use none run in auto)
  qed
  from upd del show ?thesis
    by (simp add: updateDocument_shape updateDocument2_shape)
qed

theorem C8_witness:
  "''zz'' \<notin> set (map id_col (rows demo_backend)) \<and>
   fst (updateDocument ''zz'' \<lparr>title_upd = None, fileName_upd = None, content_upd = Some ''x'',
          userId_upd = None, isPublic_upd = None\<rparr> demo_backend) = Inl DocumentNotFound \<and>
   fst (deleteDocument ''zz'' demo_backend) = Inl DocumentNotFound"
proof -
  have h: "''zz'' \<notin> set (map id_col (rows demo_backend))" by (simp add: demo_backend_def)
  from C8_missing_row_not_found [OF h, of "\<lparr>title_upd = None, fileName_upd = None,
      content_upd = Some ''x'', userId_upd = None, isPublic_upd = None\<rparr>"] h
  show ?thesis by auto
qed

section \<open>What an update leaves alone\<close>

lemma apply_updates_fixed: "fixed_columns (apply_updates u k r) = fixed_columns r"
  by (simp add: fixed_columns_def apply_updates_def)

lemma rows_updated_frame:
  "list_all2 (\<lambda>r r'. fixed_columns r' = fixed_columns r \<and> (id_col r \<noteq> i \<longrightarrow> r' = r))
     rs (map (\<lambda>r. if id_col r = i then apply_updates u k r else r) rs)"
  by (induction rs) (auto simp: apply_updates_fixed)

lemma rows_same_frame:
  "list_all2 (\<lambda>r r'. fixed_columns r' = fixed_columns r \<and> (id_col r \<noteq> i \<longrightarrow> r' = r)) rs rs"
  by (induction rs) auto

lemma blobs_written_keys: "map fst (blobs_written u p bs) = map fst bs"
  by (simp add: blobs_written_def keys_overwrite split: option.splits)

lemma blobs_written_other: "q \<noteq> p \<Longrightarrow> map_of (blobs_written u p bs) q = map_of bs q"
  by (simp add: blobs_written_def map_of_overwrite_other split: option.splits)

lemma update_with_frame:
  assumes run: "update_with mk mf i u s = (res, s')"
  shows "list_all2 (\<lambda>r r'. fixed_columns r' = fixed_columns r \<and> (id_col r \<noteq> i \<longrightarrow> r' = r))
           (rows s) (rows s') \<and>
         map fst (blobs s') = map fst (blobs s) \<and>
         (\<forall>q. (\<forall>r \<in> set (rows s). id_col r = i \<longrightarrow> storage_path r \<noteq> q) \<longrightarrow>
              map_of (blobs s') q = map_of (blobs s) q) \<and>
         (\<forall>f. res = Inr f \<longrightarrow>
              (\<exists>r d k c. filter (\<lambda>r. id_col r = i) (rows s) = [r] \<and>
                 f = mf (apply_updates d k r) c))"
proof -
  have other: "map_of (blobs_written u (storage_path cur) (blobs s)) q = map_of (blobs s) q"
    if "filter (\<lambda>r. id_col r = i) (rows s) = [cur]"
      and "\<forall>r \<in> set (rows s). id_col r = i \<longrightarrow> storage_path r \<noteq> q" for cur q
  proof -
    from that(1) have "cur \<in> set (filter (\<lambda>r. id_col r = i) (rows s))" by simp
    with that(2) have "q \<noteq> storage_path cur" by auto
    then show ?thesis by (rule blobs_written_other)
  qed
  from run show ?thesis
  proof (cases rule: update_with_cases)
    case (not_found e)
    then show ?thesis by (simp add: rows_same_frame)
  next
    case (blob_failed cur c e)
    then show ?thesis by (simp add: rows_same_frame)
  next
    case (row_failed cur k e)
    then show ?thesis by (simp add: rows_same_frame blobs_written_keys other)
  next
    case (updated cur k c)
    then show ?thesis by (auto simp: rows_updated_frame blobs_written_keys other)
  next
    case (reread_failed cur k e)
    then show ?thesis by (simp add: rows_updated_frame blobs_written_keys other)
  next
    case (reread cur k x)
    then show ?thesis by (auto simp: rows_updated_frame blobs_written_keys other)
  qed
qed

text \<open>
  Claim C10. Whatever the updates and however the run of \<^verbatim>\<open>updateDocument\<close> (either copy)
  ends: the table has the same rows in the same places, each with its id, file name,
  owner, storage path and creation time unchanged, and rows with another id are
  unchanged altogether; the bucket has the same paths, and only the blob at the storage
  path of the row with the id can have another content. A document that is returned
  carries the id, file name, owner and creation time of the row as it was.
\<close>

theorem C10_update_frame:
  assumes copy: "update = updateDocument \<or> update = updateDocument2"
    and run: "update i u s = (res, s')"
  shows "list_all2 (\<lambda>r r'. fixed_columns r' = fixed_columns r \<and> (id_col r \<noteq> i \<longrightarrow> r' = r))
           (rows s) (rows s') \<and>
         map fst (blobs s') = map fst (blobs s) \<and>
         (\<forall>q. (\<forall>r \<in> set (rows s). id_col r = i \<longrightarrow> storage_path r \<noteq> q) \<longrightarrow>
              map_of (blobs s') q = map_of (blobs s) q) \<and>
         (\<forall>f. res = Inr f \<longrightarrow>
              (\<exists>r. filter (\<lambda>r. id_col r = i) (rows s) = [r] \<and>
                 (id_fld f, fileName f, userId f, createdAt f) =
                 (id_col r, file_name r, user_id r, created_at r)))"
proof -
  from copy run obtain mk mf where *: "update_with mk mf i u s = (res, s')"
    and mf: "\<And>r c. (id_fld (mf r c), fileName (mf r c), userId (mf r c), createdAt (mf r c)) =
                 (id_col r, file_name r, user_id r, created_at r)"
    by (auto simp: updateDocument_shape updateDocument2_shape as_file_def as_file2_def)
  note fr = update_with_frame [OF *]
  have "\<exists>r. filter (\<lambda>r. id_col r = i) (rows s) = [r] \<and>
                 (id_fld f, fileName f, userId f, createdAt f) =
                 (id_col r, file_name r, user_id r, created_at r)" if "res = Inr f" for f
  proof -
    from fr that obtain r d k c where r: "filter (\<lambda>r. id_col r = i) (rows s) = [r]"
      and f: "f = mf (apply_updates d k r) c"
      by blast
    from apply_updates_fixed [of d k r] f mf [of "apply_updates d k r" c] r show ?thesis
      by (auto simp: fixed_columns_def)
  qed
  with fr show ?thesis by blast
qed

lemma demo_update:
  "updateDocument ''d1'' demo_updates demo_backend =
     (Inr \<lparr>title = Some ''d1.md'', fileName = ''d1.md'', content = ''# new'', userId = ''ann'',
           isPublic = True, id_fld = ''d1'', createdAt = 1, updatedAt = 7\<rparr>,
      demo_backend\<lparr>
        rows := [\<lparr>id_col = ''d1'', alias = None, file_name = ''d1.md'', user_id = ''ann'',
               is_public = True, storage_path = ''ann/d1.md'', created_at = 1, updated_at = 7\<rparr>],
        blobs := [(''ann/d1.md'', ''# new'')], clock := 8,
        trace := [(SelectSingle ''d1'', None), (StorageUpdate ''ann/d1.md'' ''# new'', None),
                  (Update ''d1'' \<lparr>upd_alias = None, upd_is_public = Some True,
                     upd_updated_at = None\<rparr>, None)]\<rparr>)"
  by (simp add: run_defs demo_updates_def)

theorem C10_witness:
  "map fixed_columns (rows (snd (updateDocument ''d1'' demo_updates demo_backend))) =
     map fixed_columns (rows demo_backend) \<and>
   map fst (blobs (snd (updateDocument ''d1'' demo_updates demo_backend))) =
     map fst (blobs demo_backend) \<and>
   rows (snd (updateDocument ''d1'' demo_updates demo_backend)) \<noteq> rows demo_backend"
  using C10_update_frame [OF disjI1 [OF refl] demo_update]
  by (simp add: demo_update) (simp add: demo_backend_def fixed_columns_def)

section \<open>Listing the documents\<close>

lemma promise_all_map_Inr: "promise_all (map Inr xs) = Inr xs"
  by (induction xs) auto

lemma promise_all_Inr: "promise_all rs = Inr xs \<longleftrightarrow> rs = map Inr xs"
proof
  show "promise_all rs = Inr xs \<Longrightarrow> rs = map Inr xs"
  proof (induction rs arbitrary: xs)
    case Nil
    then show ?case by simp
  next
    case (Cons r rs)
    show ?case
    proof (cases r)
      case (Inl e)
      with Cons.prems show ?thesis by simp
    next
      case (Inr x)
      with Cons.prems obtain ys where "promise_all rs = Inr ys" "xs = x # ys"
        by (auto split: sum.splits)
      with Cons.IH [of ys] Inr show ?thesis by simp
    qed
  qed
qed (simp add: promise_all_map_Inr)

lemma promise_all_Inl:
  "promise_all rs = Inl e \<Longrightarrow> \<exists>xs post. rs = map Inr xs @ Inl e # post"
proof (induction rs)
  case Nil
  then show ?case by simp
next
  case (Cons r rs)
  show ?case
  proof (cases r)
    case (Inl e')
    with Cons.prems have "r # rs = map Inr [] @ Inl e # rs" by simp
    then show ?thesis by blast
  next
    case (Inr x)
    with Cons.prems have "promise_all rs = Inl e" by (auto split: sum.splits)
    with Cons.IH obtain xs post where "rs = map Inr xs @ Inl e # post" by blast
    with Inr have "r # rs = map Inr (x # xs) @ Inl e # post" by simp
    then show ?thesis by blast
  qed
qed

lemma promise_all_throws: "Inl e \<in> set rs \<Longrightarrow> \<exists>x. promise_all rs = Inl x"
proof (induction rs)
  case Nil
  then show ?case by simp
next
  case (Cons r rs)
  then show ?case by (cases r) (auto split: sum.splits)
qed

lemma load_each_run:
  "load_each ds s = (rs, s') \<Longrightarrow>
     rows s' = rows s \<and> blobs s' = blobs s \<and>
     (\<exists>t. trace s' = trace s @ t \<and>
          map fst t = map (\<lambda>d. StorageDownload (storage_path d)) ds \<and>
          map snd t = map settled rs) \<and>
     list_all2 (\<lambda>d r. \<forall>f. r = Inr f \<longrightarrow> (\<exists>c. f = as_file d c)) ds rs"
proof (induction ds arbitrary: s rs s')
  case Nil
  then show ?case by simp
next
  case (Cons d ds)
  obtain c s1 where c1: "getFileContent (storage_path d) s = (c, s1)" by force
  obtain rs' s2 where c2: "load_each ds s1 = (rs', s2)" by force
  note f1 = getFileContent_eq [OF c1, unfolded answered_def]
  from Cons.IH [OF c2] obtain t where t: "trace s2 = trace s1 @ t"
    "map fst t = map (\<lambda>d. StorageDownload (storage_path d)) ds" "map snd t = map settled rs'"
    and rest: "rows s2 = rows s1" "blobs s2 = blobs s1"
      "list_all2 (\<lambda>d r. \<forall>f. r = Inr f \<longrightarrow> (\<exists>c. f = as_file d c)) ds rs'"
    by blast
  from Cons.prems c1 c2 have rs: "rs = (case c of Inl e \<Rightarrow> Inl e | Inr x \<Rightarrow> Inr (as_file d x)) # rs'"
    and s': "s' = s2" by auto
  have "trace s' = trace s @ (StorageDownload (storage_path d), settled (hd rs)) # t"
    using f1 t s' rs by (auto simp: settled_def split: sum.splits)
  moreover have "map snd ((StorageDownload (storage_path d), settled (hd rs)) # t) = map settled rs"
    using t rs by simp
  ultimately have "\<exists>t. trace s' = trace s @ t \<and>
          map fst t = map (\<lambda>d. StorageDownload (storage_path d)) (d # ds) \<and>
          map snd t = map settled rs"
    using t(2) by (intro exI [of _ "(StorageDownload (storage_path d), settled (hd rs)) # t"]) simp
  with rest f1 s' rs show ?case by (auto split: sum.splits)
qed

lemma getDocuments_cases [consumes 1, case_names read_failed loaded]:
  assumes "getDocuments s = (res, s')"
  obtains
    e where "res = Inl e" "trace s' = trace s @ [(SelectAllNewestFirst, Some e)]"
      "rows s' = rows s" "blobs s' = blobs s"
  | rs t where "res = promise_all rs"
      "trace s' = trace s @ (SelectAllNewestFirst, None) # t"
      "map fst t = map (\<lambda>d. StorageDownload (storage_path d)) (newest_first (rows s))"
      "map snd t = map settled rs"
      "list_all2 (\<lambda>d r. \<forall>f. r = Inr f \<longrightarrow> (\<exists>c. f = as_file d c)) (newest_first (rows s)) rs"
      "rows s' = rows s" "blobs s' = blobs s"
proof -
  obtain r0 s1 where c0: "db_select_all s = (r0, s1)" by force
  note f0 = db_select_all_eq [OF c0, unfolded answered_def]
  show thesis
  proof (cases "error r0")
    case (Some e)
    with f0 assms c0 show thesis
      by (intro that(1) [of e]) (auto simp: getDocuments_def)
  next
    case None
    obtain rs s2 where c1: "load_each (newest_first (rows s)) s1 = (rs, s2)" by force
    from load_each_run [OF c1] obtain t where "trace s2 = trace s1 @ t"
      "map fst t = map (\<lambda>d. StorageDownload (storage_path d)) (newest_first (rows s))"
      "map snd t = map settled rs"
      "list_all2 (\<lambda>d r. \<forall>f. r = Inr f \<longrightarrow> (\<exists>c. f = as_file d c)) (newest_first (rows s)) rs"
      "rows s2 = rows s1" "blobs s2 = blobs s1"
      by blast
    with None f0 assms c0 c1 show thesis
      by (intro that(2) [of rs t]) (auto simp: getDocuments_def newest_first_def)
  qed
qed

lemma load_each2_run:
  "load_each2 ds s = (rs, s') \<Longrightarrow>
     rows s' = rows s \<and> blobs s' = blobs s \<and>
     (\<exists>ds'. subseq ds' ds \<and> list_all2 (\<lambda>d f. \<exists>c. f = as_file2 d c) ds' (kept rs))"
proof (induction ds arbitrary: s rs s')
  case Nil
  then show ?case by (simp add: kept_def)
next
  case (Cons d ds)
  obtain c s1 where c1: "getFileContent (storage_path d) s = (c, s1)" by force
  obtain rs' s2 where c2: "load_each2 ds s1 = (rs', s2)" by force
  note f1 = getFileContent_eq [OF c1]
  from Cons.IH [OF c2] obtain ds' where ds': "subseq ds' ds"
    "list_all2 (\<lambda>d f. \<exists>c. f = as_file2 d c) ds' (kept rs')"
    and rest: "rows s2 = rows s1" "blobs s2 = blobs s1"
    by blast
  from Cons.prems c1 c2 have rs: "rs = (case c of Inl e \<Rightarrow> None | Inr x \<Rightarrow> Some (as_file2 d x)) # rs'"
    and s': "s' = s2" by auto
  show ?case
  proof (cases c)
    case (Inl e)
    with rs have "kept rs = kept rs'" by (simp add: kept_def)
    with ds' have "subseq ds' (d # ds) \<and> list_all2 (\<lambda>d f. \<exists>c. f = as_file2 d c) ds' (kept rs)"
      by (simp add: list_emb_Cons)
    with rest f1 s' show ?thesis by auto
  next
    case (Inr x)
    with rs have "kept rs = as_file2 d x # kept rs'" by (simp add: kept_def)
    with ds' have "subseq (d # ds') (d # ds) \<and>
        list_all2 (\<lambda>d f. \<exists>c. f = as_file2 d c) (d # ds') (kept rs)"
      by auto
    then have "\<exists>ds'. subseq ds' (d # ds) \<and>
        list_all2 (\<lambda>d f. \<exists>c. f = as_file2 d c) ds' (kept rs)"
      by (rule exI)
    with rest f1 s' show ?thesis by simp
  qed
qed

lemma getDocuments2_cases [consumes 1, case_names read_failed loaded]:
  assumes "getDocuments2 s = (res, s')"
  obtains
    e where "res = Inl e" "trace s' = trace s @ [(SelectAllNewestFirst, Some e)]"
      "rows s' = rows s" "blobs s' = blobs s"
  | docs ds where "res = Inr docs" "subseq ds (newest_first (rows s))"
      "list_all2 (\<lambda>d f. \<exists>c. f = as_file2 d c) ds docs"
      "rows s' = rows s" "blobs s' = blobs s"
proof -
  obtain r0 s1 where c0: "db_select_all s = (r0, s1)" by force
  note f0 = db_select_all_eq [OF c0, unfolded answered_def]
  show thesis
  proof (cases "error r0")
    case (Some e)
    with f0 assms c0 show thesis
      by (intro that(1) [of e]) (auto simp: getDocuments2_def)
  next
    case None
    obtain rs s2 where c1: "load_each2 (newest_first (rows s)) s1 = (rs, s2)" by force
    from load_each2_run [OF c1] obtain ds where "subseq ds (newest_first (rows s))"
      "list_all2 (\<lambda>d f. \<exists>c. f = as_file2 d c) ds (kept rs)"
      "rows s2 = rows s1" "blobs s2 = blobs s1"
      by blast
    with None f0 assms c0 c1 show thesis
      by (intro that(2) [of "kept rs" ds]) (auto simp: getDocuments2_def newest_first_def kept_def)
  qed
qed

lemma newest_first_sorted:
  "sorted_wrt (\<lambda>a b. created_at b \<le> created_at a) (newest_first rs)"
proof -
  have "sorted (map created_at (sort_key created_at rs))" by (rule sorted_sort_key)
  then have "sorted_wrt (\<lambda>a b. created_at a \<le> created_at b) (sort_key created_at rs)"
    by (simp add: sorted_wrt_map)
  then show ?thesis by (simp add: newest_first_def sorted_wrt_rev)
qed

lemma subseq_set: "subseq xs ys \<Longrightarrow> set xs \<subseteq> set ys"
  by (auto elim: list_emb_set)

lemma sorted_wrt_subseq:
  "subseq xs ys \<Longrightarrow> sorted_wrt P ys \<Longrightarrow> sorted_wrt P xs"
proof (induction rule: list_emb.induct)
  case (list_emb_Nil ys)
  then show ?case by simp
next
  case (list_emb_Cons xs ys y)
  then show ?case by simp
next
  case (list_emb_Cons2 x y xs ys)
  from list_emb_Cons2(2) have "set xs \<subseteq> set ys" by (rule subseq_set)
  with list_emb_Cons2 show ?case by auto
qed

lemma list_all2_maps: "list_all2 (\<lambda>d f. g f = h d) ds docs \<Longrightarrow> map g docs = map h ds"
  by (induction rule: list_all2_induct) auto

lemma files_sorted:
  assumes "list_all2 (\<lambda>d f. createdAt f = created_at d) ds docs"
    and "sorted_wrt (\<lambda>a b. created_at b \<le> created_at a) ds"
  shows "sorted_wrt (\<lambda>a b. createdAt b \<le> createdAt a) docs"
proof -
  from assms(1) have "map createdAt docs = map created_at ds" by (rule list_all2_maps)
  moreover from assms(2) have "sorted_wrt (\<lambda>x y. y \<le> x) (map created_at ds)"
    by (simp add: sorted_wrt_map)
  ultimately have "sorted_wrt (\<lambda>x y. y \<le> x) (map createdAt docs)" by simp
  then show ?thesis by (simp add: sorted_wrt_map)
qed

text \<open>
  Claim C9. A list returned by \<^verbatim>\<open>getDocuments\<close> (either copy) is sorted by creation time,
  newest first: the rows are asked for in that order, and the documents are built from
  them in the same order (the second copy leaving out those whose content failed to load).
\<close>

theorem C9_newest_first:
  assumes "getDocuments s = (Inr docs, s') \<or> getDocuments2 s = (Inr docs, s')"
  shows "sorted_wrt (\<lambda>a b. createdAt a \<ge> createdAt b) docs"
  using assms
proof
  assume "getDocuments s = (Inr docs, s')"
  then show ?thesis
  proof (cases rule: getDocuments_cases)
    case (loaded rs t)
    from loaded(1) [symmetric] have "rs = map Inr docs" by (simp add: promise_all_Inr)
    with loaded(5) have "list_all2 (\<lambda>d f. createdAt f = created_at d) (newest_first (rows s)) docs"
      by (auto simp: list_all2_map2 as_file_def elim!: list_all2_mono)
    from files_sorted [OF this newest_first_sorted] show ?thesis .
  qed simp
next
  assume "getDocuments2 s = (Inr docs, s')"
  then show ?thesis
  proof (cases rule: getDocuments2_cases)
    case (loaded docs' ds)
    then have "list_all2 (\<lambda>d f. createdAt f = created_at d) ds docs"
      by (auto simp: as_file2_def elim!: list_all2_mono)
    from files_sorted [OF this sorted_wrt_subseq [OF loaded(2) newest_first_sorted]]
    show ?thesis .
  qed simp
qed

lemma demo_list:
  "getDocuments (snd (createDocument demo_input demo_backend)) =
     (Inr [\<lparr>title = Some ''d2.md'', fileName = ''d2.md'', content = ''# two'', userId = ''ann'',
             isPublic = False, id_fld = ''d2'', createdAt = 6, updatedAt = 6\<rparr>,
           \<lparr>title = Some ''d1.md'', fileName = ''d1.md'', content = ''# one'', userId = ''ann'',
             isPublic = False, id_fld = ''d1'', createdAt = 1, updatedAt = 1\<rparr>],
      demo_backend\<lparr>
        rows := rows demo_backend @ [\<lparr>id_col = ''d2'', alias = None, file_name = ''d2.md'',
           user_id = ''ann'', is_public = False, storage_path = ''ann/d2.md'',
           created_at = 6, updated_at = 6\<rparr>],
        blobs := [(''ann/d1.md'', ''# one''), (''ann/d2.md'', ''# two'')],
        uuids := [], clock := 11,
        trace := [(RpcGenerateUuid, None),
                  (Insert \<lparr>id_col = ''d2'', alias = None, file_name = ''d2.md'', user_id = ''ann'',
                      is_public = False, storage_path = ''ann/d2.md''\<rparr>, None),
                  (StorageUpload ''ann/d2.md'' ''# two'', None),
                  (SelectAllNewestFirst, None),
                  (StorageDownload ''ann/d2.md'', None),
                  (StorageDownload ''ann/d1.md'', None)]\<rparr>)"
  by (simp add: demo_create) (simp add: run_defs)

theorem C9_witness:
  "map createdAt (case fst (getDocuments (snd (createDocument demo_input demo_backend))) of
       Inl e \<Rightarrow> [] | Inr docs \<Rightarrow> docs) = [6, 1]"
  using C9_newest_first [OF disjI1 [OF demo_list]]
  by (simp add: demo_list)

section \<open>The title of a document that is read\<close>

text \<open>
  Claim C7, as amended. A document returned by \<^verbatim>\<open>getDocument\<close> or \<^verbatim>\<open>getDocuments\<close> of
  documents.ts has as title the stored alias when there is one and it is not empty, and
  the stored file name otherwise. In the second copy of the module the title of a
  document that is read is the stored alias as it is (\<^verbatim>\<open>null\<close> when there is none), with no
  fall-back to the file name.
\<close>

theorem C7_title_of_read_documents:
  "(getDocument i s = (Inr (Some f), s') \<longrightarrow>
      (\<exists>doc. filter (\<lambda>r. id_col r = i) (rows s) = [doc] \<and> fileName f = file_name doc \<and>
         title f = Some (case alias doc of None \<Rightarrow> file_name doc
                         | Some a \<Rightarrow> if a = [] then file_name doc else a))) \<and>
   (getDocuments s = (Inr docs, s') \<longrightarrow>
      list_all2 (\<lambda>doc f. fileName f = file_name doc \<and>
         title f = Some (case alias doc of None \<Rightarrow> file_name doc
                         | Some a \<Rightarrow> if a = [] then file_name doc else a))
        (newest_first (rows s)) docs) \<and>
   (getDocument2 i s = (Inr (Some f), s') \<longrightarrow>
      (\<exists>doc. filter (\<lambda>r. id_col r = i) (rows s) = [doc] \<and> fileName f = file_name doc \<and>
         title f = alias doc)) \<and>
   (getDocuments2 s = (Inr docs, s') \<longrightarrow>
      (\<exists>ds. subseq ds (newest_first (rows s)) \<and>
         list_all2 (\<lambda>doc f. fileName f = file_name doc \<and> title f = alias doc) ds docs))"
proof (intro conjI impI)
  assume "getDocument i s = (Inr (Some f), s')"
  then have "get_with Inl as_file i s = (Inr (Some f), s')" by (simp add: getDocument_shape)
  then show "\<exists>doc. filter (\<lambda>r. id_col r = i) (rows s) = [doc] \<and> fileName f = file_name doc \<and>
         title f = Some (case alias doc of None \<Rightarrow> file_name doc
                         | Some a \<Rightarrow> if a = [] then file_name doc else a)"
    by (cases rule: get_with_cases) (auto simp: as_file_def or_else_def)
next
  assume "getDocuments s = (Inr docs, s')"
  then show "list_all2 (\<lambda>doc f. fileName f = file_name doc \<and>
         title f = Some (case alias doc of None \<Rightarrow> file_name doc
                         | Some a \<Rightarrow> if a = [] then file_name doc else a))
        (newest_first (rows s)) docs"
  proof (cases rule: getDocuments_cases)
    case (loaded rs t)
    from loaded(1) [symmetric] have "rs = map Inr docs" by (simp add: promise_all_Inr)
    with loaded(5) show ?thesis
      by (auto simp: list_all2_map2 as_file_def or_else_def elim!: list_all2_mono)
  qed simp
next
  assume "getDocument2 i s = (Inr (Some f), s')"
  then have "get_with (\<lambda>e. Inr None) as_file2 i s = (Inr (Some f), s')"
    by (simp add: getDocument2_shape)
  then show "\<exists>doc. filter (\<lambda>r. id_col r = i) (rows s) = [doc] \<and> fileName f = file_name doc \<and>
         title f = alias doc"
    by (cases rule: get_with_cases) (auto simp: as_file2_def)
next
  assume "getDocuments2 s = (Inr docs, s')"
  then show "\<exists>ds. subseq ds (newest_first (rows s)) \<and>
         list_all2 (\<lambda>doc f. fileName f = file_name doc \<and> title f = alias doc) ds docs"
  proof (cases rule: getDocuments2_cases)
    case (loaded docs' ds)
    then have "list_all2 (\<lambda>doc f. fileName f = file_name doc \<and> title f = alias doc) ds docs"
      by (auto simp: as_file2_def elim!: list_all2_mono)
    with loaded(2) show ?thesis by blast
  qed simp
qed

lemma demo_read:
  "getDocument ''d1'' demo_backend =
     (Inr (Some \<lparr>title = Some ''d1.md'', fileName = ''d1.md'', content = ''# one'',
             userId = ''ann'', isPublic = False, id_fld = ''d1'', createdAt = 1, updatedAt = 1\<rparr>),
      demo_backend\<lparr>clock := 7,
        trace := [(SelectSingle ''d1'', None), (StorageDownload ''ann/d1.md'', None)]\<rparr>)"
  by (simp add: run_defs)

lemma demo_read2:
  "getDocument2 ''d1'' demo_backend =
     (Inr (Some \<lparr>title = None, fileName = ''d1.md'', content = ''# one'',
             userId = ''ann'', isPublic = False, id_fld = ''d1'', createdAt = 1, updatedAt = 1\<rparr>),
      demo_backend\<lparr>clock := 7,
        trace := [(SelectSingle ''d1'', None), (StorageDownload ''ann/d1.md'', None)]\<rparr>)"
  by (simp add: run_defs)

theorem C7_witness:
  "map_option title (case fst (getDocument ''d1'' demo_backend) of Inl e \<Rightarrow> None | Inr f \<Rightarrow> f) =
     Some (Some ''d1.md'') \<and>
   map alias (filter (\<lambda>r. id_col r = ''d1'') (rows demo_backend)) = [None]"
  using C7_title_of_read_documents [of "''d1''" demo_backend _ _ "[]"] demo_read
  by (simp add: demo_read) (simp add: demo_backend_def)

text \<open>
  The claim as first stated fails on the second copy: the sample row has no alias and
  the file name \<^verbatim>\<open>d1.md\<close>, and the document read has the title \<^verbatim>\<open>null\<close>.
\<close>

theorem C7_counterexample:
  "fst (getDocument2 ''d1'' demo_backend) =
     Inr (Some \<lparr>title = None, fileName = ''d1.md'', content = ''# one'',
             userId = ''ann'', isPublic = False, id_fld = ''d1'', createdAt = 1, updatedAt = 1\<rparr>) \<and>
   map alias (rows demo_backend) = [None] \<and>
   map file_name (rows demo_backend) = [''d1.md'']"
  by (simp add: demo_read2) (simp add: demo_backend_def)

section \<open>What becomes of a failed call\<close>

















end
